theory Spec2Isabelle
  imports Complex_Main "HOL-Library.AList"
begin

section \<open>JavaScript numbers\<close>

text \<open>
  A JavaScript number is a double: \<open>NaN\<close>, one of the two infinities, or a finite
  double, which the model holds as the real number it stands for. Every arithmetic
  result is rounded to a double as IEEE 754 does (\<open>toDouble\<close>). The sign of zero is
  not modelled: the two zeros are equal and have the same text, and the program
  divides by powers of ten only, which are never the negative zero.
\<close>

datatype jsnum = NaN | PosInf | NegInf | Fin real

subsection \<open>Rounding to a double\<close>

text \<open>
  The binary exponent of a positive real \<open>x\<close>, the integer \<open>e\<close> with
  \<open>2 ^ e \<le> x < 2 ^ (e + 1)\<close>: counted up from 0 by halving when \<open>1 \<le> x\<close>, counted down
  by doubling otherwise.
\<close>

function expUp :: "real \<Rightarrow> int \<Rightarrow> int" where
  "expUp x e = (if 2 \<le> x then expUp (x / 2) (e + 1) else e)"
  by pat_completeness auto
termination
proof (relation "measure (\<lambda>(x, e). nat \<lceil>x\<rceil>)")
  show "wf (measure (\<lambda>(x, e). nat \<lceil>x\<rceil>))" by simp
next
  fix x :: real and e :: int
  assume "2 \<le> x"
  then have "x / 2 \<le> x - 1" by simp
  then have "\<lceil>x / 2\<rceil> \<le> \<lceil>x - 1\<rceil>" by (rule ceiling_mono)
  moreover have "0 < \<lceil>x\<rceil>" using \<open>2 \<le> x\<close> by (simp add: less_ceiling_iff)
  ultimately show "((x / 2, e + 1), (x, e)) \<in> measure (\<lambda>(x, e). nat \<lceil>x\<rceil>)"
    by simp
qed

function expDown :: "real \<Rightarrow> int \<Rightarrow> int" where
  "expDown x e = (if 0 < x \<and> x < 1 then expDown (2 * x) (e - 1) else e)"
  by pat_completeness auto
termination
proof (relation "measure (\<lambda>(x, e). nat \<lceil>1 / x\<rceil>)")
  show "wf (measure (\<lambda>(x, e). nat \<lceil>1 / x\<rceil>))" by simp
next
  fix x :: real and e :: int
  assume a: "0 < x \<and> x < 1"
  then have y: "1 < 1 / x" by simp
  have "\<lceil>1 / (2 * x)\<rceil> < \<lceil>1 / x\<rceil>"
  proof (cases "1 / x \<le> 2")
    case True
    then have "1 / (2 * x) \<le> 1" using a by (simp add: field_simps)
    then have "\<lceil>1 / (2 * x)\<rceil> \<le> 1" by (simp add: ceiling_le_iff)
    moreover have "1 < \<lceil>1 / x\<rceil>" using y by (simp add: less_ceiling_iff)
    ultimately show ?thesis by linarith
  next
    case False
    then have "1 / (2 * x) \<le> 1 / x - 1" using a by (simp add: field_simps)
    then have "\<lceil>1 / (2 * x)\<rceil> \<le> \<lceil>1 / x - 1\<rceil>" by (rule ceiling_mono)
    then show ?thesis by simp
  qed
  moreover have "0 < \<lceil>1 / x\<rceil>" using a by (simp add: less_ceiling_iff)
  ultimately show "((2 * x, e - 1), (x, e)) \<in> measure (\<lambda>(x, e). nat \<lceil>1 / x\<rceil>)"
    by simp
qed

declare expUp.simps [simp del]

declare expDown.simps [simp del]

definition binaryExponent :: "real \<Rightarrow> int" where
  "binaryExponent x = (if 1 \<le> x then expUp x 0 else expDown x 0)"

text \<open>The nearest integer, the even one of the two when they are equally near.\<close>

definition roundHalfEven :: "real \<Rightarrow> int" where
  "roundHalfEven y =
     (if y - of_int \<lfloor>y\<rfloor> < 1 / 2 then \<lfloor>y\<rfloor>
      else if 1 / 2 < y - of_int \<lfloor>y\<rfloor> then \<lfloor>y\<rfloor> + 1
      else if even \<lfloor>y\<rfloor> then \<lfloor>y\<rfloor> else \<lfloor>y\<rfloor> + 1)"

text \<open>
  The double nearest to a real number, ties to the even significand: the spacing of
  the doubles around \<open>x\<close> is \<open>2 ^ (e - 52)\<close> for the binary exponent \<open>e\<close> of \<open>\<bar>x\<bar>\<close>, not
  below that of the subnormal doubles, \<open>2 ^ (- 1074)\<close>; a result that reaches
  \<open>2 ^ 1024\<close> is an infinity.
\<close>

definition toDouble :: "real \<Rightarrow> jsnum" where
  "toDouble x =
     (if x = 0 then Fin 0
      else
        (let e = max (binaryExponent \<bar>x\<bar>) (- 1022);
             ulp = 2 powi (e - 52);
             r = of_int (roundHalfEven (\<bar>x\<bar> / ulp)) * ulp
         in if 2 ^ 1024 \<le> r then (if 0 < x then PosInf else NegInf)
            else Fin (if 0 < x then r else - r)))"

subsection \<open>Arithmetic\<close>

text \<open>\<^verbatim>\<open>a + b\<close> on numbers.\<close>

fun jadd :: "jsnum \<Rightarrow> jsnum \<Rightarrow> jsnum" where
  "jadd (Fin a) (Fin b) = toDouble (a + b)"
| "jadd NaN _ = NaN"
| "jadd _ NaN = NaN"
| "jadd PosInf NegInf = NaN"
| "jadd NegInf PosInf = NaN"
| "jadd PosInf _ = PosInf"
| "jadd _ PosInf = PosInf"
| "jadd NegInf _ = NegInf"
| "jadd _ NegInf = NegInf"

text \<open>An infinity with the sign of a finite factor; zero times infinity is \<open>NaN\<close>.\<close>

definition signedInf :: "real \<Rightarrow> jsnum" where
  "signedInf s = (if s = 0 then NaN else if 0 < s then PosInf else NegInf)"

text \<open>\<^verbatim>\<open>a * b\<close> on numbers.\<close>

fun jmul :: "jsnum \<Rightarrow> jsnum \<Rightarrow> jsnum" where
  "jmul (Fin a) (Fin b) = toDouble (a * b)"
| "jmul NaN _ = NaN"
| "jmul _ NaN = NaN"
| "jmul PosInf PosInf = PosInf"
| "jmul PosInf NegInf = NegInf"
| "jmul NegInf PosInf = NegInf"
| "jmul NegInf NegInf = PosInf"
| "jmul PosInf (Fin b) = signedInf b"
| "jmul NegInf (Fin b) = signedInf (- b)"
| "jmul (Fin a) PosInf = signedInf a"
| "jmul (Fin a) NegInf = signedInf (- a)"

text \<open>
  \<^verbatim>\<open>a / b\<close> on numbers. A finite number over zero is an infinity (\<open>NaN\<close> for
  \<^verbatim>\<open>0 / 0\<close>); the model's only zero is the positive one.
\<close>

fun jdiv :: "jsnum \<Rightarrow> jsnum \<Rightarrow> jsnum" where
  "jdiv (Fin a) (Fin b) = (if b = 0 then signedInf a else toDouble (a / b))"
| "jdiv NaN _ = NaN"
| "jdiv _ NaN = NaN"
| "jdiv (Fin a) PosInf = Fin 0"
| "jdiv (Fin a) NegInf = Fin 0"
| "jdiv PosInf (Fin b) = (if 0 \<le> b then PosInf else NegInf)"
| "jdiv NegInf (Fin b) = (if 0 \<le> b then NegInf else PosInf)"
| "jdiv PosInf PosInf = NaN"
| "jdiv PosInf NegInf = NaN"
| "jdiv NegInf PosInf = NaN"
| "jdiv NegInf NegInf = NaN"

text \<open>The power of ten with an integer exponent.\<close>

definition scale10 :: "int \<Rightarrow> real" where
  "scale10 k = (if 0 \<le> k then 10 ^ nat k else 1 / 10 ^ nat (- k))"

text \<open>
  \<^verbatim>\<open>10 ** d\<close>. ECMAScript leaves the precision of \<^verbatim>\<open>**\<close> to the engine; the model takes
  the double nearest to the power, which is what an engine returns where the power is
  a double itself (as \<^verbatim>\<open>10 ** 18\<close> is).
\<close>

fun pow10 :: "jsnum \<Rightarrow> jsnum" where
  "pow10 NaN = NaN"
| "pow10 PosInf = PosInf"
| "pow10 NegInf = Fin 0"
| "pow10 (Fin d) = toDouble (if of_int \<lfloor>d\<rfloor> = d then scale10 \<lfloor>d\<rfloor> else 10 powr d)"

text \<open>\<^verbatim>\<open>x || 0\<close> on a number \<open>x\<close>: the falsy numbers \<open>NaN\<close> and zero give zero.\<close>

fun orZero :: "jsnum \<Rightarrow> jsnum" where
  "orZero NaN = Fin 0"
| "orZero x = x"

section \<open>Strings\<close>

text \<open>
  A string is the list of its code units, and a character of the model is a code unit
  below 256 (Basic Latin and Latin-1): the model has no string with a code unit above.
  Case conversion and white space are those of JavaScript on these code units.
\<close>

text \<open>\<^verbatim>\<open>s.startsWith(p)\<close>.\<close>

definition startsWith :: "string \<Rightarrow> string \<Rightarrow> bool" where
  "startsWith s p = (take (length p) s = p)"

text \<open>\<^verbatim>\<open>s.slice(n)\<close> for \<open>0 \<le> n\<close>.\<close>

definition slice :: "string \<Rightarrow> nat \<Rightarrow> string" where
  "slice s n = drop n s"

text \<open>
  The lower-case form of a code unit: the letters \<^verbatim>\<open>A\<close> to \<^verbatim>\<open>Z\<close> (65 to 90) and the
  capital letters of Latin-1 (192 to 222, without the multiplication sign 215) have
  their lower-case form 32 places above, which is the same code unit with the bit of
  value 32 set.
\<close>

definition lowerChar :: "char \<Rightarrow> char" where
  "lowerChar c =
     (let n = (of_char c :: nat)
      in if (65 \<le> n \<and> n \<le> 90) \<or> (192 \<le> n \<and> n \<le> 222 \<and> n \<noteq> 215)
         then (case c of Char b0 b1 b2 b3 b4 b5 b6 b7 \<Rightarrow> Char b0 b1 b2 b3 b4 True b6 b7)
         else c)"

text \<open>\<^verbatim>\<open>s.toLowerCase()\<close>.\<close>

definition toLowerCase :: "string \<Rightarrow> string" where
  "toLowerCase s = map lowerChar s"

text \<open>\<^verbatim>\<open>s.padEnd(n, " ")\<close>.\<close>

definition padEnd :: "string \<Rightarrow> nat \<Rightarrow> string" where
  "padEnd s n = s @ replicate (n - length s) CHR '' ''"

subsection \<open>Conversion of a string to a number\<close>

text \<open>
  \<^verbatim>\<open>Number(s)\<close> on a string follows the grammar of ECMAScript's
  \<open>StringNumericLiteral\<close>: white space around the literal is dropped, the empty
  string is zero, a literal is \<open>Infinity\<close> with an optional sign, a decimal literal
  with an optional sign, fraction and exponent, or an unsigned hexadecimal, octal or
  binary integer. Every other string is \<open>NaN\<close>; no string raises. The value of a
  literal is rounded to the nearest double.
\<close>

text \<open>
  White space and line terminators below 256: the space, the tab, the line feed, the
  vertical tab, the form feed, the carriage return and the no-break space.
\<close>

definition isWhiteSpace :: "char \<Rightarrow> bool" where
  "isWhiteSpace c =
     (c \<in> set [CHR '' '', CHR 0x09, CHR 0x0A, CHR 0x0B, CHR 0x0C, CHR 0x0D, CHR 0xA0])"

definition trim :: "string \<Rightarrow> string" where
  "trim s = rev (dropWhile isWhiteSpace (rev (dropWhile isWhiteSpace s)))"

definition digitOf :: "char \<Rightarrow> int option" where
  "digitOf c =
     map_of [(CHR ''0'', 0), (CHR ''1'', 1), (CHR ''2'', 2), (CHR ''3'', 3), (CHR ''4'', 4),
             (CHR ''5'', 5), (CHR ''6'', 6), (CHR ''7'', 7), (CHR ''8'', 8), (CHR ''9'', 9),
             (CHR ''a'', 10), (CHR ''b'', 11), (CHR ''c'', 12), (CHR ''d'', 13),
             (CHR ''e'', 14), (CHR ''f'', 15),
             (CHR ''A'', 10), (CHR ''B'', 11), (CHR ''C'', 12), (CHR ''D'', 13),
             (CHR ''E'', 14), (CHR ''F'', 15)] c"

text \<open>A character is a digit of the base when its value is below the base.\<close>

definition isDigit :: "int \<Rightarrow> char \<Rightarrow> bool" where
  "isDigit base c = (case digitOf c of Some d \<Rightarrow> d < base | None \<Rightarrow> False)"

definition digitsValue :: "int \<Rightarrow> string \<Rightarrow> int" where
  "digitsValue base ds =
     foldl (\<lambda>acc c. base * acc + (case digitOf c of Some d \<Rightarrow> d | None \<Rightarrow> 0)) 0 ds"

text \<open>An unsigned integer literal after its prefix \<^verbatim>\<open>0x\<close>, \<^verbatim>\<open>0o\<close> or \<^verbatim>\<open>0b\<close>.\<close>

definition prefixedInteger :: "int \<Rightarrow> string \<Rightarrow> jsnum" where
  "prefixedInteger base ds =
     (if ds \<noteq> [] \<and> list_all (isDigit base) ds
      then toDouble (of_int (digitsValue base ds)) else NaN)"

text \<open>
  The exponent part of a decimal literal: nothing, or \<^verbatim>\<open>e\<close> with an optional sign and
  at least one digit. \<open>None\<close> when the text is neither.
\<close>

definition exponentPart :: "string \<Rightarrow> int option" where
  "exponentPart s =
     (case s of
        [] \<Rightarrow> Some 0
      | c # r \<Rightarrow>
          if c = CHR ''e'' \<or> c = CHR ''E'' then
            (let neg = (r \<noteq> [] \<and> hd r = CHR ''-'');
                 ds = (if r \<noteq> [] \<and> (hd r = CHR ''-'' \<or> hd r = CHR ''+'') then tl r else r)
             in if ds \<noteq> [] \<and> list_all (isDigit 10) ds
                then Some (if neg then - digitsValue 10 ds else digitsValue 10 ds)
                else None)
          else None)"

text \<open>
  An unsigned decimal literal: digits, an optional fraction, an optional exponent.
  The result is the exact value of the literal.
\<close>

definition unsignedDecimal :: "string \<Rightarrow> real option" where
  "unsignedDecimal s =
     (let ip = takeWhile (isDigit 10) s;
          r1 = dropWhile (isDigit 10) s;
          dot = (r1 \<noteq> [] \<and> hd r1 = CHR ''.'');
          fp = (if dot then takeWhile (isDigit 10) (tl r1) else []);
          r2 = (if dot then dropWhile (isDigit 10) (tl r1) else r1)
      in if ip = [] \<and> fp = [] then None
         else (case exponentPart r2 of
                 None \<Rightarrow> None
               | Some e \<Rightarrow>
                   Some (of_int (digitsValue 10 (ip @ fp)) * scale10 (e - int (length fp)))))"

definition signedDecimal :: "string \<Rightarrow> jsnum" where
  "signedDecimal s =
     (let neg = (s \<noteq> [] \<and> hd s = CHR ''-'');
          u = (if s \<noteq> [] \<and> (hd s = CHR ''-'' \<or> hd s = CHR ''+'') then tl s else s)
      in if u = ''Infinity'' then (if neg then NegInf else PosInf)
         else (case unsignedDecimal u of
                 None \<Rightarrow> NaN
               | Some v \<Rightarrow> toDouble (if neg then - v else v)))"

definition StringToNumber :: "string \<Rightarrow> jsnum" where
  "StringToNumber s =
     (let t = trim s
      in if t = [] then Fin 0
         else if startsWith t ''0x'' \<or> startsWith t ''0X'' then prefixedInteger 16 (slice t 2)
         else if startsWith t ''0o'' \<or> startsWith t ''0O'' then prefixedInteger 8 (slice t 2)
         else if startsWith t ''0b'' \<or> startsWith t ''0B'' then prefixedInteger 2 (slice t 2)
         else signedDecimal t)"

section \<open>Values, errors and collaborators\<close>

text \<open>
  What the program can throw, or a collaborator's promise can reject with. Every
  \<^verbatim>\<open>await\<close> of a rejected promise and every throwing conversion is an \<open>Inl\<close> branch
  of the model.
\<close>

datatype error = Rejected string | TypeError

definition bindE :: "error + 'a \<Rightarrow> ('a \<Rightarrow> error + 'b) \<Rightarrow> error + 'b" where
  "bindE r f = (case r of Inl e \<Rightarrow> Inl e | Inr v \<Rightarrow> f v)"

text \<open>
  A balance value, of the source type \<^verbatim>\<open>StringNumber | Object\<close>. The program observes a
  value through \<^verbatim>\<open>typeof\<close>, \<^verbatim>\<open>Number(v)\<close> and, on an object, \<^verbatim>\<open>v.toFixed()\<close>:
  \<^item> \<open>JString s\<close> is the string \<open>s\<close>;
  \<^item> \<open>JNumber n\<close> is the number \<open>n\<close>;
  \<^item> \<open>JNumberString n\<close> is the string \<^verbatim>\<open>n.toString()\<close>, kept by its number, since
    \<^verbatim>\<open>Number(n.toString())\<close> is \<open>n\<close> again;
  \<^item> \<open>JSymbol\<close> is a symbol, whose conversion to a number throws;
  \<^item> \<open>JObject n f\<close> is an object (\<^verbatim>\<open>null\<close> included) with \<^verbatim>\<open>Number(v)\<close> equal to
    \<open>n\<close> and \<^verbatim>\<open>v.toFixed()\<close> equal to \<open>f\<close>, where \<open>None\<close> says that the operation throws
    (as \<^verbatim>\<open>toFixed\<close> does on \<^verbatim>\<open>null\<close> and on an object without that method).
\<close>

datatype jsvalue =
    JString string
  | JNumber jsnum
  | JNumberString jsnum
  | JSymbol
  | JObject "jsnum option" "string option"

text \<open>\<^verbatim>\<open>Number(v)\<close>.\<close>

fun toNumber :: "jsvalue \<Rightarrow> error + jsnum" where
  "toNumber (JString s) = Inr (StringToNumber s)"
| "toNumber (JNumber n) = Inr n"
| "toNumber (JNumberString n) = Inr n"
| "toNumber JSymbol = Inl TypeError"
| "toNumber (JObject n f) = (case n of None \<Rightarrow> Inl TypeError | Some v \<Rightarrow> Inr v)"

text \<open>\<^verbatim>\<open>Number(output)\<close> of a call's output, a string or \<^verbatim>\<open>undefined\<close>.\<close>

fun outputToNumber :: "string option \<Rightarrow> jsnum" where
  "outputToNumber None = NaN"
| "outputToNumber (Some s) = StringToNumber s"

text \<open>The optional \<^verbatim>\<open>chain\<close> argument of the batch client: \<^verbatim>\<open>"bsc"\<close> or absent.\<close>

datatype chain = Bsc

text \<open>One entry of a batch result, \<^verbatim>\<open>{input: {target}, success, output}\<close>; the field
  \<open>call_output\<close> is \<^verbatim>\<open>output\<close>, \<open>None\<close> when it is \<^verbatim>\<open>undefined\<close>.\<close>

record call =
  input_target :: string
  success :: bool
  call_output :: "string option"

text \<open>A request that the batch client sends to a ledger: the method, the targets, the chain.\<close>

type_synonym request = "string \<times> string list \<times> chain option"

text \<open>A price mapping: \<^verbatim>\<open>prices[key]?.usd\<close> is \<open>prices key\<close>, \<open>None\<close> for \<^verbatim>\<open>undefined\<close>.\<close>

type_synonym TokenPrices = "string \<Rightarrow> jsnum option"

text \<open>
  The modules \<^verbatim>\<open>../abi\<close>, \<^verbatim>\<open>./prices\<close> and \<^verbatim>\<open>./humanizeNumber\<close> are arguments of the
  model:
  \<^item> \<open>multiCall abi targets chain\<close> gives the requests the client sends and the
    \<^verbatim>\<open>output\<close> array its promise resolves with, or the rejection;
  \<^item> \<open>getTokenPrices ids endpoint knownTokenPrices lock maxRetries prefix\<close> and
    \<open>getHistoricalTokenPrices ids endpoint timestamp lock maxRetries\<close> give the price
    mapping, or the rejection;
  \<^item> \<open>humanizeNumber\<close> formats a number for the log.
  The type \<open>'l\<close> is that of the lock callback, which the program only passes on.
\<close>

record 'l collaborators =
  multiCall :: "string \<Rightarrow> string list \<Rightarrow> chain option \<Rightarrow> request list \<times> (error + call list)"
  getTokenPrices ::
    "string list \<Rightarrow> string \<Rightarrow> TokenPrices \<Rightarrow> 'l \<Rightarrow> jsnum \<Rightarrow> string option \<Rightarrow> error + TokenPrices"
  getHistoricalTokenPrices ::
    "string list \<Rightarrow> string \<Rightarrow> jsnum \<Rightarrow> 'l \<Rightarrow> jsnum \<Rightarrow> error + TokenPrices"
  humanizeNumber :: "jsnum \<Rightarrow> string"

section \<open>The helpers of \<^verbatim>\<open>computeTVL/index.ts\<close>\<close>

text \<open>
  \<^verbatim>\<open>tokenMulticall\<close> (lines 19 to 28): one batch call with every address as a target, of
  which the successful entries are kept.
\<close>

definition tokenMulticall ::
  "'l collaborators \<Rightarrow> string list \<Rightarrow> string \<Rightarrow> chain option \<Rightarrow> request list \<times> (error + call list)"
where
  "tokenMulticall c addresses abi chain =
     (case multiCall c abi addresses chain of
        (sent, Inl e) \<Rightarrow> (sent, Inl e)
      | (sent, Inr res) \<Rightarrow> (sent, Inr (filter success res)))"

subsection \<open>Objects used as dictionaries\<close>

text \<open>
  An object used as a dictionary is the list of its own properties in the order in
  which JavaScript enumerates them: first the keys that are array indices (the
  canonical decimal numerals below \<open>2 ^ 32 - 1\<close>) in ascending order, then the other
  keys in the order of their creation. All objects that the program writes to are
  created by \<^verbatim>\<open>{}\<close>, so their prototype is \<^verbatim>\<open>Object.prototype\<close>.
\<close>

definition isArrayIndex :: "string \<Rightarrow> bool" where
  "isArrayIndex k =
     (k \<noteq> [] \<and> list_all (isDigit 10) k \<and> (hd k \<noteq> CHR ''0'' \<or> k = ''0'')
      \<and> digitsValue 10 k < 4294967295)"

text \<open>A new array index goes before the first key that is no smaller array index.\<close>

fun insertIndex :: "string \<Rightarrow> 'v \<Rightarrow> (string \<times> 'v) list \<Rightarrow> (string \<times> 'v) list" where
  "insertIndex k v [] = [(k, v)]"
| "insertIndex k v (p # rest) =
     (if isArrayIndex (fst p) \<and> digitsValue 10 (fst p) < digitsValue 10 k
      then p # insertIndex k v rest
      else (k, v) # p # rest)"

text \<open>
  \<^verbatim>\<open>obj[k] = v\<close> for a value \<open>v\<close> that is no object (the program writes strings,
  numbers and symbols). The key \<^verbatim>\<open>__proto__\<close> reaches the setter inherited from
  \<^verbatim>\<open>Object.prototype\<close>, which ignores such a value: nothing is written. Every other
  key is written as an own property: a present key keeps its place, a new one takes
  its place in the order of enumeration (the properties of \<^verbatim>\<open>Object.prototype\<close> other
  than \<^verbatim>\<open>__proto__\<close> are writable data properties, which an assignment shadows).
\<close>

definition setProperty :: "string \<Rightarrow> 'v \<Rightarrow> (string \<times> 'v) list \<Rightarrow> (string \<times> 'v) list" where
  "setProperty k v obj =
     (if k = ''__proto__'' then obj
      else if isArrayIndex k \<and> map_of obj k = None then insertIndex k v obj
      else AList.update k v obj)"

text \<open>
  The names of the properties of \<^verbatim>\<open>Object.prototype\<close>, which every object inherits.
  Each is a function, except \<^verbatim>\<open>__proto__\<close>, whose getter gives \<^verbatim>\<open>Object.prototype\<close>
  itself.
\<close>

definition objectPrototypeNames :: "string list" where
  "objectPrototypeNames =
     [''constructor'', ''__defineGetter__'', ''__defineSetter__'', ''hasOwnProperty'',
      ''__lookupGetter__'', ''__lookupSetter__'', ''isPrototypeOf'',
      ''propertyIsEnumerable'', ''toString'', ''valueOf'', ''__proto__'',
      ''toLocaleString'']"

text \<open>
  What \<^verbatim>\<open>addTokenBalance\<close> stores in \<^verbatim>\<open>tokenBalances\<close> and \<^verbatim>\<open>usdTokenBalances\<close>:
  \<^item> \<open>NumberEntry n\<close> is the number \<open>n\<close>;
  \<^item> \<open>TextEntry name ns\<close> is a string: the text of the value that
    \<^verbatim>\<open>Object.prototype\<close> holds under \<open>name\<close> (the source text of a function), followed
    by the texts of the numbers \<open>ns\<close>.
\<close>

datatype balanceEntry = NumberEntry jsnum | TextEntry string "jsnum list"

type_synonym ReturnedTokenBalances = "(string \<times> balanceEntry) list"

type_synonym Balances = "(string \<times> jsvalue) list"

text \<open>
  \<^verbatim>\<open>(balances[symbol] || 0) + amount\<close> (line 35), from the own property of the symbol
  if there is one:
  \<^item> a number: the falsy ones count as 0, and the sum is a number;
  \<^item> a string, which is not empty and so truthy: \<^verbatim>\<open>+\<close> appends the text of the amount;
  \<^item> no own property, and the symbol names a property of \<^verbatim>\<open>Object.prototype\<close>: the
    inherited value is an object, which is truthy, and \<^verbatim>\<open>+\<close> appends the text of the
    amount to its text;
  \<^item> no property at all: \<^verbatim>\<open>undefined || 0\<close> is 0.
\<close>

definition plusAmount :: "ReturnedTokenBalances \<Rightarrow> string \<Rightarrow> jsnum \<Rightarrow> balanceEntry" where
  "plusAmount balances symbol amount =
     (case map_of balances symbol of
        Some (NumberEntry n) \<Rightarrow> NumberEntry (jadd (orZero n) amount)
      | Some (TextEntry name ns) \<Rightarrow> TextEntry name (ns @ [amount])
      | None \<Rightarrow>
          if symbol \<in> set objectPrototypeNames then TextEntry symbol [amount]
          else NumberEntry (jadd (Fin 0) amount))"

text \<open>\<^verbatim>\<open>addTokenBalance\<close> (lines 30 to 36).\<close>

definition addTokenBalance ::
  "ReturnedTokenBalances \<Rightarrow> string \<Rightarrow> jsnum \<Rightarrow> ReturnedTokenBalances" where
  "addTokenBalance balances symbol amount =
     setProperty symbol (plusAmount balances symbol amount) balances"

section \<open>The input and its conversion (lines 46 to 74)\<close>

text \<open>
  \<^verbatim>\<open>rawBalances\<close> is an object from token keys to balance values, given by its entries
  in enumeration order (the keys are distinct), or an array of
  \<^verbatim>\<open>{address, balance}\<close> records.
\<close>

record token =
  token_address :: string
  token_balance :: jsvalue

datatype rawBalances = BalancesObject Balances | BalancesArray "token list"

definition zeroAddress :: string where
  "zeroAddress = ''0x0000000000000000000000000000000000000000''"

text \<open>
  The callback of \<^verbatim>\<open>rawBalances.reduce\<close> (lines 58 to 71). Reading
  \<^verbatim>\<open>callTokenDecimals[index].success\<close> past the end of the array throws.
\<close>

definition toSymbolEntry :: "call list \<Rightarrow> Balances \<Rightarrow> token \<Rightarrow> nat \<Rightarrow> error + Balances" where
  "toSymbolEntry callTokenDecimals acc tok index =
     (if index < length callTokenDecimals then
        (let dec = (if success (callTokenDecimals ! index)
                    then outputToNumber (call_output (callTokenDecimals ! index))
                    else if token_address tok = zeroAddress then Fin 18 else NaN)
         in bindE (toNumber (token_balance tok))
              (\<lambda>b. Inr (setProperty (token_address tok) (JNumberString (jmul b (pow10 dec))) acc)))
      else Inl TypeError)"

fun toSymbolBalances :: "call list \<Rightarrow> Balances \<Rightarrow> token list \<Rightarrow> nat \<Rightarrow> error + Balances" where
  "toSymbolBalances callTokenDecimals acc [] index = Inr acc"
| "toSymbolBalances callTokenDecimals acc (tok # rest) index =
     (case toSymbolEntry callTokenDecimals acc tok index of
        Inl e \<Rightarrow> Inl e
      | Inr acc' \<Rightarrow> toSymbolBalances callTokenDecimals acc' rest (Suc index))"

text \<open>
  Lines 46 to 74: \<^verbatim>\<open>balances\<close>, with the requests of the batch call that the array
  form awaits. A rejection of that call rejects the whole function.
\<close>

definition balancesOf :: "'l collaborators \<Rightarrow> rawBalances \<Rightarrow> error + request list \<times> Balances" where
  "balancesOf c raw =
     (case raw of
        BalancesArray tokens \<Rightarrow>
          (case multiCall c ''erc20:decimals'' (map token_address tokens) None of
             (sent, Inl e) \<Rightarrow> Inl e
           | (sent, Inr callTokenDecimals) \<Rightarrow>
               bindE (toSymbolBalances callTokenDecimals [] tokens 0)
                 (\<lambda>balances. Inr (sent, balances)))
      | BalancesObject balances \<Rightarrow> Inr ([], balances))"

section \<open>Normalization and classification (lines 75 to 100)\<close>

record normalization =
  normalizedBalances :: Balances
  ethereumAddresses :: "string list"
  bscAddresses :: "string list"
  nonEthereumTokenIds :: "string list"

definition emptyNormalization :: normalization where
  "emptyNormalization =
     \<lparr>normalizedBalances = [], ethereumAddresses = [], bscAddresses = [],
      nonEthereumTokenIds = []\<rparr>"

text \<open>
  Lines 80 to 85: the key and the balance after the rewriting of the zero address.
  \<^verbatim>\<open>Number(normalizedBalance)\<close> may throw, outside every \<^verbatim>\<open>try\<close>.
\<close>

definition normalizeETH :: "string \<Rightarrow> jsvalue \<Rightarrow> error + string \<times> jsvalue" where
  "normalizeETH tokenAddressOrName bal =
     (if tokenAddressOrName = zeroAddress
      then bindE (toNumber bal) (\<lambda>n. Inr (''ethereum'', JNumber (jdiv n (pow10 (Fin 18)))))
      else Inr (tokenAddressOrName, bal))"

text \<open>Lines 86 to 92: an object is stored as its \<^verbatim>\<open>toFixed()\<close>, every other value as it is.\<close>

fun storedBalance :: "jsvalue \<Rightarrow> error + jsvalue" where
  "storedBalance (JObject n f) = (case f of None \<Rightarrow> Inl TypeError | Some s \<Rightarrow> Inr (JString s))"
| "storedBalance v = Inr v"

text \<open>Lines 93 to 99: the classifier.\<close>

definition classify :: "string \<Rightarrow> normalization \<Rightarrow> normalization" where
  "classify normalizedAddressOrName st =
     (if startsWith normalizedAddressOrName ''0x''
      then st\<lparr>ethereumAddresses := ethereumAddresses st @ [normalizedAddressOrName]\<rparr>
      else if startsWith normalizedAddressOrName ''bsc:''
      then st\<lparr>bscAddresses :=
                bscAddresses st @ [slice normalizedAddressOrName (length ''bsc:'')]\<rparr>
      else st\<lparr>nonEthereumTokenIds := nonEthereumTokenIds st @ [normalizedAddressOrName]\<rparr>)"

text \<open>Lines 80 to 92: the key and the value that the loop writes for one entry.\<close>

definition normalizedEntry :: "string \<times> jsvalue \<Rightarrow> error + string \<times> jsvalue" where
  "normalizedEntry entry =
     bindE (normalizeETH (fst entry) (snd entry))
       (\<lambda>(normalizedAddressOrName, normalizedBalance).
          bindE (storedBalance normalizedBalance)
            (\<lambda>stored. Inr (normalizedAddressOrName, stored)))"

text \<open>The body of the loop, for one key of \<^verbatim>\<open>balances\<close>.\<close>

definition normalizeStep :: "normalization \<Rightarrow> string \<times> jsvalue \<Rightarrow> error + normalization" where
  "normalizeStep st entry =
     bindE (normalizedEntry entry)
       (\<lambda>(normalizedAddressOrName, stored).
          Inr (classify normalizedAddressOrName
                 (st\<lparr>normalizedBalances :=
                       setProperty normalizedAddressOrName stored (normalizedBalances st)\<rparr>)))"

fun normalizeLoop :: "normalization \<Rightarrow> Balances \<Rightarrow> error + normalization" where
  "normalizeLoop st [] = Inr st"
| "normalizeLoop st (entry # rest) =
     (case normalizeStep st entry of
        Inl e \<Rightarrow> Inl e
      | Inr st' \<Rightarrow> normalizeLoop st' rest)"

section \<open>Metadata and prices (lines 102 to 158)\<close>

text \<open>
  The four batch lookups are started and not awaited here: each is a promise, settled
  with the successful calls (\<open>Inr\<close>) or rejected (\<open>Inl\<close>).
\<close>

record metadata =
  allTokenDecimals :: "error + call list"
  allTokenSymbols :: "error + call list"
  bscTokenDecimals :: "error + call list"
  bscTokenSymbols :: "error + call list"

definition metadataLookups ::
  "'l collaborators \<Rightarrow> string list \<Rightarrow> string list \<Rightarrow> request list \<times> metadata" where
  "metadataLookups c ethAddresses bscAddrs =
     (let (sent1, ethDecimals) = tokenMulticall c ethAddresses ''erc20:decimals'' None;
          (sent2, ethSymbols) = tokenMulticall c ethAddresses ''erc20:symbol'' None;
          (sent3, bscDecimals) = tokenMulticall c bscAddrs ''erc20:decimals'' (Some Bsc);
          (sent4, bscSymbols) = tokenMulticall c bscAddrs ''erc20:symbol'' (Some Bsc)
      in (sent1 @ sent2 @ sent3 @ sent4,
          \<lparr>allTokenDecimals = ethDecimals, allTokenSymbols = ethSymbols,
           bscTokenDecimals = bscDecimals, bscTokenSymbols = bscSymbols\<rparr>))"

text \<open>\<^verbatim>\<open>timestamp: number | "now"\<close>.\<close>

datatype timestamp = Now | At jsnum

record prices =
  nonEthereumTokenPrices :: TokenPrices
  ethereumTokenPrices :: TokenPrices
  bscTokenPrices :: TokenPrices

text \<open>
  Lines 110 to 158. The three price lookups are awaited one after the other, outside
  every \<^verbatim>\<open>try\<close>: a rejection rejects the whole function.
\<close>

definition tokenPrices ::
  "'l collaborators \<Rightarrow> timestamp \<Rightarrow> TokenPrices \<Rightarrow> 'l \<Rightarrow> jsnum \<Rightarrow> normalization \<Rightarrow> error + prices"
where
  "tokenPrices c timestamp knownTokenPrices getCoingeckoLock coingeckoMaxRetries n =
     (case timestamp of
        Now \<Rightarrow>
          bindE (getTokenPrices c (nonEthereumTokenIds n) ''v3/simple/price?ids''
                   knownTokenPrices getCoingeckoLock coingeckoMaxRetries None)
            (\<lambda>nonEth.
          bindE (getTokenPrices c (bscAddresses n)
                   ''v3/simple/token_price/binance-smart-chain?contract_addresses''
                   knownTokenPrices getCoingeckoLock coingeckoMaxRetries (Some ''bsc:''))
            (\<lambda>bsc.
          bindE (getTokenPrices c (ethereumAddresses n)
                   ''v3/simple/token_price/ethereum?contract_addresses''
                   knownTokenPrices getCoingeckoLock coingeckoMaxRetries None)
            (\<lambda>eth.
          Inr \<lparr>nonEthereumTokenPrices = nonEth, ethereumTokenPrices = eth,
               bscTokenPrices = bsc\<rparr>)))
      | At t \<Rightarrow>
          bindE (getHistoricalTokenPrices c (nonEthereumTokenIds n)
                   ''https://api.coingecko.com/api/v3/coins''
                   t getCoingeckoLock coingeckoMaxRetries)
            (\<lambda>nonEth.
          bindE (getHistoricalTokenPrices c (bscAddresses n)
                   ''https://api.coingecko.com/api/v3/coins/binance-smart-chain/contract''
                   t getCoingeckoLock coingeckoMaxRetries)
            (\<lambda>bsc.
          bindE (getHistoricalTokenPrices c (ethereumAddresses n)
                   ''https://api.coingecko.com/api/v3/coins/ethereum/contract''
                   t getCoingeckoLock coingeckoMaxRetries)
            (\<lambda>eth.
          Inr \<lparr>nonEthereumTokenPrices = nonEth, ethereumTokenPrices = eth,
               bscTokenPrices = bsc\<rparr>))))"

section \<open>Valuation (lines 159 to 230)\<close>

text \<open>What the callback writes to the console.\<close>

datatype logline = ConsoleWarn string | ConsoleLog "string list" | ConsoleError string error

text \<open>
  The callback of \<^verbatim>\<open>Object.entries(normalizedBalances).map\<close> is asynchronous and
  writes to the console and to the two shared objects \<^verbatim>\<open>tokenBalances\<close> and
  \<^verbatim>\<open>usdTokenBalances\<close>. What it returns does not depend on the shared objects, so the
  model gives each run of the callback as the value it returns and the effects it
  has, in the order in which it has them; the effects of all runs are then performed
  in the order in which the runs reach them.
\<close>

datatype balancesObject = TokenBalances | UsdTokenBalances

datatype effect = Console logline | AddTokenBalance balancesObject string jsnum

record tokenResult =
  usdAmount :: jsnum
  tokenSymbol :: string

text \<open>
  \<^verbatim>\<open>calls.find((call) => call.input.target === normalizedAddress)?.output\<close>
  (lines 182 to 184 and 188 to 190).
\<close>

definition findOutput :: "call list \<Rightarrow> string \<Rightarrow> string option" where
  "findOutput calls normalizedAddress =
     (case find (\<lambda>call. input_target call = normalizedAddress) calls of
        None \<Rightarrow> None
      | Some call \<Rightarrow> call_output call)"

text \<open>
  Lines 182 to 201, for a key of a ledger: the console lines, and the symbol, the
  amount and the looked-up price, or what was thrown. Awaiting a rejected batch
  promise throws; so does \<^verbatim>\<open>Number(balance)\<close> on a value that has no number.
\<close>

definition chainToken ::
  "bool \<Rightarrow> string \<Rightarrow> jsvalue \<Rightarrow> TokenPrices \<Rightarrow> error + call list \<Rightarrow> error + call list \<Rightarrow> string
   \<Rightarrow> logline list \<times> (error + string \<times> jsnum \<times> jsnum option)" where
  "chainToken verbose address bal chainTokenPrices chainTokenSymbols chainTokenDecimals
     normalizedAddress =
     (case chainTokenSymbols of
        Inl e \<Rightarrow> ([], Inl e)
      | Inr symbols \<Rightarrow>
          (let symbol = (case findOutput symbols normalizedAddress of
                           None \<Rightarrow> ''UNKNOWN ('' @ address @ '')''
                         | Some s \<Rightarrow> s)
           in case chainTokenDecimals of
                Inl e \<Rightarrow> ([], Inl e)
              | Inr decimals \<Rightarrow>
                  (case findOutput decimals normalizedAddress of
                     None \<Rightarrow>
                       (if verbose
                        then [ConsoleWarn (''Couldn't query decimals() for token '' @ symbol
                                @ '' ('' @ address
                                @ '') so we'll ignore and assume it's amount is 0'')]
                        else [],
                        Inr (symbol, Fin 0, chainTokenPrices (toLowerCase normalizedAddress)))
                   | Some tokenDecimals \<Rightarrow>
                       (case toNumber bal of
                          Inl e \<Rightarrow> ([], Inl e)
                        | Inr b \<Rightarrow>
                            ([], Inr (symbol, jdiv b (pow10 (StringToNumber tokenDecimals)),
                                      chainTokenPrices (toLowerCase normalizedAddress)))))))"

text \<open>
  Lines 165 to 206: the dispatch on the key's prefix. A key of the secondary ledger is
  looked up by the key without its prefix in the secondary ledger's results, a key of
  the primary ledger by the key itself in the primary ledger's; every other key is its
  own symbol and its balance is its amount.
\<close>

definition tokenLookup ::
  "metadata \<Rightarrow> prices \<Rightarrow> bool \<Rightarrow> string \<Rightarrow> jsvalue
   \<Rightarrow> logline list \<times> (error + string \<times> jsnum \<times> jsnum option)" where
  "tokenLookup meta ps verbose address bal =
     (if startsWith address ''0x'' \<or> startsWith address ''bsc:'' then
        (if startsWith address ''bsc:''
         then chainToken verbose address bal (bscTokenPrices ps) (bscTokenSymbols meta)
                (bscTokenDecimals meta) (slice address (length ''bsc:''))
         else chainToken verbose address bal (ethereumTokenPrices ps)
                (allTokenSymbols meta) (allTokenDecimals meta) address)
      else (case toNumber bal of
              Inl e \<Rightarrow> ([], Inl e)
            | Inr amount \<Rightarrow>
                ([], Inr (address, amount, nonEthereumTokenPrices ps (toLowerCase address)))))"

text \<open>Lines 207 to 214: a price that is \<^verbatim>\<open>undefined\<close> becomes zero.\<close>

fun priceOrZero ::
  "bool \<Rightarrow> string \<Rightarrow> logline list \<times> (error + string \<times> jsnum \<times> jsnum option)
   \<Rightarrow> logline list \<times> (error + string \<times> jsnum \<times> jsnum)" where
  "priceOrZero verbose address (lines, Inl e) = (lines, Inl e)"
| "priceOrZero verbose address (lines, Inr (symbol, amount, Some price)) =
     (lines, Inr (symbol, amount, price))"
| "priceOrZero verbose address (lines, Inr (symbol, amount, None)) =
     (lines @ (if verbose
               then [ConsoleLog [''Couldn't find the price of token at '' @ address
                       @ '', assuming a price of 0 for it...'']]
               else []),
      Inr (symbol, amount, Fin 0))"

text \<open>Lines 165 to 214, the body of the \<^verbatim>\<open>try\<close> before the aggregation.\<close>

definition tryBody ::
  "metadata \<Rightarrow> prices \<Rightarrow> bool \<Rightarrow> string \<Rightarrow> jsvalue
   \<Rightarrow> logline list \<times> (error + string \<times> jsnum \<times> jsnum)" where
  "tryBody meta ps verbose address bal =
     priceOrZero verbose address (tokenLookup meta ps verbose address bal)"

text \<open>
  Lines 162 to 229, one run of the callback: after the body of the \<^verbatim>\<open>try\<close>, the two
  calls of \<^verbatim>\<open>addTokenBalance\<close> and the returned object; in the \<^verbatim>\<open>catch\<close>, the error
  line and the returned object.
\<close>

definition usdAmountsCallback ::
  "metadata \<Rightarrow> prices \<Rightarrow> bool \<Rightarrow> string \<times> jsvalue \<Rightarrow> effect list \<times> tokenResult" where
  "usdAmountsCallback meta ps verbose entry =
     (case tryBody meta ps verbose (fst entry) (snd entry) of
        (lines, Inr (symbol, amount, price)) \<Rightarrow>
          (map Console lines
             @ [AddTokenBalance TokenBalances symbol amount,
                AddTokenBalance UsdTokenBalances symbol (jmul amount price)],
           \<lparr>usdAmount = jmul amount price, tokenSymbol = symbol\<rparr>)
      | (lines, Inl e) \<Rightarrow>
          (map Console lines
             @ [Console (ConsoleError (''Error on token '' @ fst entry
                           @ '', we'll just assume it's price is 0...'') e)],
           \<lparr>usdAmount = Fin 0, tokenSymbol = ''ERROR '' @ fst entry\<rparr>))"

text \<open>The two shared objects of lines 159 and 160.\<close>

record balanceObjects =
  usdTokenBalances :: ReturnedTokenBalances
  tokenBalances :: ReturnedTokenBalances

fun perform :: "balanceObjects \<Rightarrow> effect \<Rightarrow> balanceObjects" where
  "perform objs (Console l) = objs"
| "perform objs (AddTokenBalance TokenBalances symbol amount) =
     objs\<lparr>tokenBalances := addTokenBalance (tokenBalances objs) symbol amount\<rparr>"
| "perform objs (AddTokenBalance UsdTokenBalances symbol amount) =
     objs\<lparr>usdTokenBalances := addTokenBalance (usdTokenBalances objs) symbol amount\<rparr>"

fun consoleOf :: "effect list \<Rightarrow> logline list" where
  "consoleOf [] = []"
| "consoleOf (Console l # fx) = l # consoleOf fx"
| "consoleOf (AddTokenBalance obj symbol amount # fx) = consoleOf fx"

subsection \<open>The order of the runs\<close>

text \<open>
  A run for a key that is no ledger address has no \<^verbatim>\<open>await\<close>: it is complete when
  \<^verbatim>\<open>map\<close> returns. A run for a ledger address stops at its first \<^verbatim>\<open>await\<close>, has no
  effect before it, and has all its effects in one step when the batch promises of its
  ledger have settled. The runs of one ledger resume in the order of the entries; how
  the runs of the two ledgers interleave depends on when the promises settle, and is
  the argument \<open>sched\<close>: \<open>True\<close> takes the next run of the primary ledger, \<open>False\<close> the
  next one of the secondary ledger.
\<close>

fun resumeOrder :: "bool list \<Rightarrow> 'a list \<Rightarrow> 'a list \<Rightarrow> 'a list" where
  "resumeOrder sched [] ys = ys"
| "resumeOrder sched xs [] = xs"
| "resumeOrder [] xs ys = xs @ ys"
| "resumeOrder (True # sched) (x # xs) ys = x # resumeOrder sched xs ys"
| "resumeOrder (False # sched) xs (y # ys) = y # resumeOrder sched xs ys"

definition settleOrder :: "bool list \<Rightarrow> Balances \<Rightarrow> Balances" where
  "settleOrder sched entries =
     filter (\<lambda>e. \<not> (startsWith (fst e) ''0x'' \<or> startsWith (fst e) ''bsc:'')) entries
     @ resumeOrder sched
         (filter (\<lambda>e. \<not> startsWith (fst e) ''bsc:'' \<and> startsWith (fst e) ''0x'') entries)
         (filter (\<lambda>e. startsWith (fst e) ''bsc:'') entries)"

section \<open>The total and the returned object (lines 231 to 244)\<close>

text \<open>
  The callback of \<^verbatim>\<open>reduce\<close> (lines 231 to 239), on the sum and the console lines
  written so far.
\<close>

definition reduceStep ::
  "'l collaborators \<Rightarrow> bool \<Rightarrow> jsnum \<times> logline list \<Rightarrow> tokenResult \<Rightarrow> jsnum \<times> logline list" where
  "reduceStep c verbose acc tok =
     (jadd (fst acc) (usdAmount tok),
      snd acc @ (if verbose
                 then [ConsoleLog [padEnd (tokenSymbol tok) 25, humanizeNumber c (usdAmount tok)]]
                 else []))"

record returned = balanceObjects +
  usdTvl :: jsnum

text \<open>What a call leaves behind when its promise is fulfilled.\<close>

record run =
  result :: returned
  console :: "logline list"
  requests :: "request list"

text \<open>
  The results of all runs of the callback, in the order of the entries (the order of
  \<^verbatim>\<open>Promise.all\<close>).
\<close>

definition usdAmounts :: "metadata \<Rightarrow> prices \<Rightarrow> bool \<Rightarrow> Balances \<Rightarrow> tokenResult list" where
  "usdAmounts meta ps verbose entries = map (\<lambda>e. snd (usdAmountsCallback meta ps verbose e)) entries"

text \<open>The effects of all runs, in the order in which the runs have them.\<close>

definition allEffects :: "metadata \<Rightarrow> prices \<Rightarrow> bool \<Rightarrow> bool list \<Rightarrow> Balances \<Rightarrow> effect list" where
  "allEffects meta ps verbose sched entries =
     concat (map (\<lambda>e. fst (usdAmountsCallback meta ps verbose e)) (settleOrder sched entries))"

text \<open>Lines 159 to 244, from the normalized balances, the batch promises and the prices.\<close>

definition valuation ::
  "'l collaborators \<Rightarrow> bool list \<Rightarrow> bool \<Rightarrow> metadata \<Rightarrow> prices \<Rightarrow> Balances
   \<Rightarrow> returned \<times> logline list" where
  "valuation c sched verbose meta ps entries =
     (let fx = allEffects meta ps verbose sched entries;
          objs = foldl perform \<lparr>usdTokenBalances = [], tokenBalances = []\<rparr> fx;
          total = foldl (reduceStep c verbose) (Fin 0, []) (usdAmounts meta ps verbose entries)
      in (\<lparr>usdTokenBalances = usdTokenBalances objs, tokenBalances = tokenBalances objs,
           usdTvl = fst total\<rparr>,
          consoleOf fx @ snd total))"

section \<open>The exported function\<close>

text \<open>
  The default export of \<^verbatim>\<open>computeTVL/index.ts\<close>: \<open>Inl\<close> when the returned promise is
  rejected, \<open>Inr\<close> with the returned object, the console and the batch requests when
  it is fulfilled.
\<close>

definition computeTVL ::
  "'l collaborators \<Rightarrow> bool list \<Rightarrow> rawBalances \<Rightarrow> timestamp \<Rightarrow> bool \<Rightarrow> TokenPrices \<Rightarrow> 'l \<Rightarrow> jsnum
   \<Rightarrow> error + run" where
  "computeTVL c sched raw timestamp verbose knownTokenPrices getCoingeckoLock
     coingeckoMaxRetries =
     bindE (balancesOf c raw)
       (\<lambda>(sent0, balances).
     bindE (normalizeLoop emptyNormalization balances)
       (\<lambda>n.
     (case metadataLookups c (ethereumAddresses n) (bscAddresses n) of
        (sent1, meta) \<Rightarrow>
     bindE (tokenPrices c timestamp knownTokenPrices getCoingeckoLock coingeckoMaxRetries n)
       (\<lambda>ps.
     (case valuation c sched verbose meta ps (normalizedBalances n) of
        (ret, lines) \<Rightarrow>
          Inr \<lparr>result = ret, console = lines, requests = sent0 @ sent1\<rparr>)))))"

text \<open>
  The array that line 231 awaits with \<^verbatim>\<open>Promise.all\<close>: the results of the runs of the
  callback in the order of the entries, as a function of the arguments of the
  exported function.
\<close>

definition tokenResults ::
  "'l collaborators \<Rightarrow> rawBalances \<Rightarrow> timestamp \<Rightarrow> bool \<Rightarrow> TokenPrices \<Rightarrow> 'l \<Rightarrow> jsnum
   \<Rightarrow> error + tokenResult list" where
  "tokenResults c raw timestamp verbose knownTokenPrices getCoingeckoLock coingeckoMaxRetries =
     bindE (balancesOf c raw)
       (\<lambda>(sent0, balances).
     bindE (normalizeLoop emptyNormalization balances)
       (\<lambda>n.
     (case metadataLookups c (ethereumAddresses n) (bscAddresses n) of
        (sent1, meta) \<Rightarrow>
     bindE (tokenPrices c timestamp knownTokenPrices getCoingeckoLock coingeckoMaxRetries n)
       (\<lambda>ps. Inr (usdAmounts meta ps verbose (normalizedBalances n))))))"

text \<open>The effects on the console, as opposed to those on the two shared objects.\<close>

fun isConsole :: "effect \<Rightarrow> bool" where
  "isConsole (Console l) = True"
| "isConsole (AddTokenBalance obj symbol amount) = False"

section \<open>Collaborators outside the sources\<close>

text \<open>
  Modelled from the spec: the batch client \<^verbatim>\<open>multiCall\<close> of \<^verbatim>\<open>../abi\<close>, which is not
  among the sources. An empty batch is a no-op returning an empty result set; every
  other batch is one request to the ledger, whose answer (one entry for each target,
  with its success and its output, or a rejection) is the argument \<open>ledger\<close>.
\<close>

definition multiCallSpec ::
  "(string \<Rightarrow> string list \<Rightarrow> chain option \<Rightarrow> error + call list)
   \<Rightarrow> string \<Rightarrow> string list \<Rightarrow> chain option \<Rightarrow> request list \<times> (error + call list)" where
  "multiCallSpec ledger abi targets chain =
     (if targets = [] then ([], Inr []) else ([(abi, targets, chain)], ledger abi targets chain))"

text \<open>
  Modelled from the spec: \<^verbatim>\<open>getTokenPrices\<close> of \<^verbatim>\<open>./prices\<close> (live mode), which is not
  among the sources. The cache is passed through, and a bucket whose ids are all in
  the cache is answered from the cache, under lowercased keys, without a network
  call; the answer for every other bucket is that of the price API, the argument
  \<open>api\<close>.
\<close>

definition getTokenPricesSpec ::
  "(string list \<Rightarrow> string \<Rightarrow> string option \<Rightarrow> error + TokenPrices)
   \<Rightarrow> string list \<Rightarrow> string \<Rightarrow> TokenPrices \<Rightarrow> 'l \<Rightarrow> jsnum \<Rightarrow> string option \<Rightarrow> error + TokenPrices"
where
  "getTokenPricesSpec api ids endpoint cache lock maxRetries prefix =
     (if list_all (\<lambda>i. cache (toLowerCase i) \<noteq> None) ids
      then Inr (\<lambda>k. if k \<in> set (map toLowerCase ids) then cache k else None)
      else api ids endpoint prefix)"

text \<open>
  Collaborators for the examples: the two clients above with a ledger and a price API
  that reject every request that reaches them.
\<close>

definition offlineCollaborators :: "unit collaborators" where
  "offlineCollaborators =
     \<lparr>multiCall = multiCallSpec (\<lambda>abi targets chain. Inl (Rejected ''ledger'')),
      getTokenPrices = getTokenPricesSpec (\<lambda>ids endpoint prefix. Inl (Rejected ''prices'')),
      getHistoricalTokenPrices = (\<lambda>ids endpoint t lock maxRetries. Inl (Rejected ''prices'')),
      humanizeNumber = (\<lambda>n. ''n'')\<rparr>"



section \<open>Properties\<close>

subsection \<open>Rounding\<close>

lemma expUp_bounds:
  "1 \<le> x \<Longrightarrow> \<exists>n. expUp x e = e + int n \<and> 2 ^ n \<le> x \<and> x < 2 ^ (n + 1)"
proof (induction x e rule: expUp.induct)
  case (1 x e)
  show ?case
  proof (cases "2 \<le> x")
    case True
    then have "1 \<le> x / 2" by simp
    from 1(1)[OF True this] obtain n where
      n: "expUp (x / 2) (e + 1) = e + 1 + int n" "2 ^ n \<le> x / 2" "x / 2 < 2 ^ (n + 1)"
      by blast
    have "expUp x e = e + int (Suc n)"
      using True n(1) by (subst expUp.simps) simp
    moreover have "2 ^ Suc n \<le> x" using n(2) by simp
    moreover have "x < 2 ^ (Suc n + 1)" using n(3) by simp
    ultimately show ?thesis by blast
  next
    case False
    then have "expUp x e = e + int 0"
      by (subst expUp.simps) simp
    moreover have "2 ^ 0 \<le> x" using 1(2) by simp
    moreover have "x < 2 ^ (0 + 1)" using False by simp
    ultimately show ?thesis by blast
  qed
qed

lemma expDown_bounds:
  "0 < x \<Longrightarrow> x < 1 \<Longrightarrow> \<exists>n. expDown x e = e - int n \<and> 1 \<le> x * 2 ^ n \<and> x * 2 ^ n < 2"
proof (induction x e rule: expDown.induct)
  case (1 x e)
  have c: "0 < x \<and> x < 1" using 1(2,3) by simp
  show ?case
  proof (cases "2 * x < 1")
    case True
    have "0 < 2 * x" using 1(2) by simp
    from 1(1)[OF c this True] obtain n where
      n: "expDown (2 * x) (e - 1) = e - 1 - int n" "1 \<le> 2 * x * 2 ^ n" "2 * x * 2 ^ n < 2"
      by blast
    have "expDown x e = e - int (Suc n)"
      using c n(1) by (subst expDown.simps) simp
    moreover have "1 \<le> x * 2 ^ Suc n" using n(2) by (simp add: mult.assoc mult.left_commute)
    moreover have "x * 2 ^ Suc n < 2" using n(3) by (simp add: mult.assoc mult.left_commute)
    ultimately show ?thesis by blast
  next
    case False
    then have "expDown (2 * x) (e - 1) = e - 1"
      by (subst expDown.simps) simp
    then have "expDown x e = e - int 1"
      using c by (subst expDown.simps) simp
    moreover have "1 \<le> x * 2 ^ 1" using False by simp
    moreover have "x * 2 ^ 1 < 2" using 1(3) by simp
    ultimately show ?thesis by blast
  qed
qed

lemma binaryExponent_bounds:
  assumes "0 < x"
  shows "2 powi binaryExponent x \<le> x \<and> x < 2 powi (binaryExponent x + 1)"
proof (cases "1 \<le> x")
  case True
  from expUp_bounds[OF True, of 0] obtain n where
    n: "expUp x 0 = int n" "2 ^ n \<le> x" "x < 2 ^ (n + 1)"
    by auto
  have e: "binaryExponent x = int n"
    using True n(1) by (simp add: binaryExponent_def)
  have "int n + 1 = int (n + 1)" by simp
  then show ?thesis
    unfolding e using n(2,3) by (simp only: power_int_of_nat) 
next
  case False
  then have l: "x < 1" by simp
  from expDown_bounds[OF assms l, of 0] obtain n where
    n: "expDown x 0 = - int n" "1 \<le> x * 2 ^ n" "x * 2 ^ n < 2"
    by auto
  have e: "binaryExponent x = - int n"
    using False n(1) by (simp add: binaryExponent_def)
  have p: "(2::real) powi (- int n) = 1 / 2 ^ n"
    by (simp add: power_int_minus field_simps)
  have q: "(2::real) powi (- int n + 1) = 2 / 2 ^ n"
    using power_int_add[of "2::real" "- int n" 1] by (simp add: p)
  show ?thesis
    unfolding e p q using n(2,3) by (simp add: field_simps)
qed

lemma powi2_less_imp: "(2::real) powi a < 2 powi b \<Longrightarrow> a < b"
proof (rule ccontr)
  assume l: "(2::real) powi a < 2 powi b" and "\<not> a < b"
  then have "b \<le> a" by simp
  then have "(2::real) powi b \<le> 2 powi a" by (rule power_int_increasing) simp
  then show False using l by simp
qed

lemma roundHalfEven_of_int: "roundHalfEven (of_int j) = j"
  by (simp add: roundHalfEven_def)

lemma toDouble_exact:
  assumes x: "x = of_int m * 2 powi k" and m: "\<bar>m\<bar> < 2 ^ 53" and k: "- 1074 \<le> k"
    and b: "\<bar>x\<bar> < 2 ^ 1024"
  shows "toDouble x = Fin x"
proof (cases "x = 0")
  case True
  then show ?thesis by (simp add: toDouble_def)
next
  case False
  define a where "a = \<bar>x\<bar>"
  have a0: "0 < a" using False by (simp add: a_def)
  have am: "a = of_int \<bar>m\<bar> * 2 powi k"
    by (simp add: a_def x abs_mult)
  define e where "e = binaryExponent a"
  define e' where "e' = max e (- 1022)"
  have lo: "2 powi e \<le> a" and hi: "a < 2 powi (e + 1)"
    using binaryExponent_bounds[OF a0] by (simp_all add: e_def)
  have "real_of_int \<bar>m\<bar> < real_of_int (2 ^ 53)" using m by (simp only: of_int_less_iff)
  then have "real_of_int \<bar>m\<bar> < 2 ^ 53" by simp
  then have "a < 2 ^ 53 * 2 powi k"
    unfolding am by (simp add: mult_strict_right_mono)
  also have "\<dots> = 2 powi (k + 53)"
    by (simp add: power_int_add)
  finally have "(2::real) powi e < 2 powi (k + 53)"
    using lo by linarith
  then have "e < k + 53"
    by (rule powi2_less_imp)
  then have ke: "e' - 52 \<le> k"
    using k by (simp add: e'_def)
  define d where "d = nat (k - (e' - 52))"
  have kd: "k = (e' - 52) + int d"
    using ke by (simp add: d_def)
  have pk: "(2::real) powi k = 2 powi (e' - 52) * 2 ^ d"
    by (subst kd) (simp add: power_int_add)
  have q: "a / 2 powi (e' - 52) = of_int (\<bar>m\<bar> * 2 ^ d)"
    unfolding am pk by simp
  have r: "of_int (roundHalfEven (a / 2 powi (e' - 52))) * 2 powi (e' - 52) = a"
    unfolding q roundHalfEven_of_int unfolding am pk by simp
  have "\<not> 2 ^ 1024 \<le> a" using b by (simp add: a_def)
  then show ?thesis
    using False r
    by (simp add: toDouble_def Let_def a_def[symmetric] e_def[symmetric] e'_def[symmetric])
       (simp add: a_def)
qed

lemma toDouble_int: "\<bar>i\<bar> < 2 ^ 53 \<Longrightarrow> toDouble (of_int i) = Fin (of_int i)"
proof -
  assume i: "\<bar>i\<bar> < 2 ^ 53"
  have "real_of_int \<bar>i\<bar> < real_of_int (2 ^ 53)" using i by (simp only: of_int_less_iff)
  then have "\<bar>real_of_int i\<bar> < 2 ^ 53" by simp
  also have "(2::real) ^ 53 < 2 ^ 1024" by simp
  finally have "\<bar>real_of_int i\<bar> < 2 ^ 1024" .
  then show ?thesis
    using toDouble_exact[of "of_int i" i 0] i by simp
qed

lemma floor_le_roundHalfEven: "\<lfloor>y\<rfloor> \<le> roundHalfEven y"
  by (simp add: roundHalfEven_def)

lemma toDouble_overflow:
  assumes "2 ^ 1024 \<le> \<bar>x\<bar>"
  shows "toDouble x = (if 0 < x then PosInf else NegInf)"
proof -
  define a where "a = \<bar>x\<bar>"
  have big: "2 ^ 1024 \<le> a" using assms by (simp add: a_def)
  then have a0: "0 < a" by (smt (verit) zero_less_power)
  define e where "e = binaryExponent a"
  have lo: "2 powi e \<le> a" and hi: "a < 2 powi (e + 1)"
    using binaryExponent_bounds[OF a0] by (simp_all add: e_def)
  have "(2::real) powi 1024 < 2 powi (e + 1)"
    using big hi by simp
  then have "1024 < e + 1"
    by (rule powi2_less_imp)
  then have e: "1024 \<le> e"
    by simp
  then have e': "max e (- 1022) = e" by simp
  define u where "u = (2::real) powi (e - 52)"
  have u0: "0 < u" by (simp add: u_def)
  have pe: "(2::real) powi e = 2 ^ 52 * u"
    unfolding u_def by (simp add: power_int_diff)
  have "2 ^ 52 \<le> a / u"
    using lo u0 by (simp add: pe field_simps)
  then have "(2::int) ^ 52 \<le> \<lfloor>a / u\<rfloor>"
    by (simp add: le_floor_iff)
  then have "(2::int) ^ 52 \<le> roundHalfEven (a / u)"
    using floor_le_roundHalfEven[of "a / u"] by linarith
  then have "(2::real) ^ 52 \<le> of_int (roundHalfEven (a / u))"
    by (metis of_int_le_iff of_int_numeral of_int_power)
  then have "2 ^ 52 * u \<le> of_int (roundHalfEven (a / u)) * u"
    using u0 by (simp add: mult_right_mono)
  then have "2 powi e \<le> of_int (roundHalfEven (a / u)) * u"
    by (simp add: pe)
  moreover have "(2::real) ^ 1024 \<le> 2 powi e"
  proof -
    have "(2::real) powi 1024 \<le> 2 powi e"
      using e by (intro power_int_increasing) simp_all
    then show ?thesis by simp
  qed
  ultimately have "2 ^ 1024 \<le> of_int (roundHalfEven (a / u)) * u"
    by linarith
  moreover have "x \<noteq> 0" using a0 by (auto simp: a_def)
  ultimately show ?thesis
    by (simp add: toDouble_def Let_def a_def[symmetric] e_def[symmetric] e' u_def[symmetric])
qed

lemma toDouble_0: "toDouble 0 = Fin 0"
  by (simp add: toDouble_def)

lemma toDouble_1: "toDouble 1 = Fin 1"
  using toDouble_int[of 1] by simp

lemma toDouble_numeral:
  "numeral n < (9007199254740992::int) \<Longrightarrow> toDouble (numeral n) = Fin (numeral n)"
  using toDouble_int[of "numeral n"] by simp



subsection \<open>Writes to an object\<close>

lemma map_of_insertIndex:
  "map_of obj k = None \<Longrightarrow> map_of (insertIndex k v obj) = (map_of obj)(k \<mapsto> v)"
proof (induction obj)
  case Nil
  show ?case by simp
next
  case (Cons p rest)
  from Cons.prems have k: "k \<noteq> fst p" and r: "map_of rest k = None"
    by (cases p; simp split: if_splits)+
  show ?case
    using Cons.IH[OF r] k by (cases p) (auto simp: fun_upd_twist)
qed

lemma map_of_setProperty:
  "map_of (setProperty k v obj)
     = (if k = ''__proto__'' then map_of obj else (map_of obj)(k \<mapsto> v))"
  by (simp add: setProperty_def map_of_insertIndex update_conv')

lemma keys_insertIndex: "fst ` set (insertIndex k v obj) = insert k (fst ` set obj)"
  by (induction obj) auto


lemma distinct_insertIndex:
  "k \<notin> fst ` set obj \<Longrightarrow> distinct (map fst obj) \<Longrightarrow> distinct (map fst (insertIndex k v obj))"
proof (induction obj)
  case Nil
  show ?case by simp
next
  case (Cons p rest)
  have "fst p \<notin> fst ` set (insertIndex k v rest)"
    using Cons.prems by (auto simp: keys_insertIndex)
  then show ?case
    using Cons by auto
qed

lemma distinct_setProperty:
  "distinct (map fst obj) \<Longrightarrow> distinct (map fst (setProperty k v obj))"
  by (simp add: setProperty_def distinct_update distinct_insertIndex map_of_eq_None_iff)

subsection \<open>The total\<close>

lemma fst_foldl_reduceStep:
  "fst (foldl (reduceStep c verbose) acc rs) = foldl jadd (fst acc) (map usdAmount rs)"
  by (induction rs arbitrary: acc) (simp_all add: reduceStep_def)

lemma usdTvl_valuation:
  "valuation c sched verbose meta ps entries = (ret, lines) \<Longrightarrow>
   usdTvl ret = foldl jadd (Fin 0) (map usdAmount (usdAmounts meta ps verbose entries))"
proof -
  assume "valuation c sched verbose meta ps entries = (ret, lines)"
  then have "ret = fst (valuation c sched verbose meta ps entries)"
    by simp
  then show ?thesis
    by (simp add: valuation_def Let_def fst_foldl_reduceStep)
qed

text \<open>
  Claim C1. Whenever the function returns, \<open>usdTvl\<close> is the sum, from zero and in
  the order of the entries, of the \<open>usdAmount\<close> of the result of every run of the
  callback, one run for each normalized key, whichever branch the run took; and the
  function is rejected exactly when the array of results is not reached.
\<close>

theorem C1_usdTvl_is_sum:
  "map_sum id (\<lambda>r. usdTvl (result r))
      (computeTVL c sched raw timestamp verbose known lock retries)
   = map_sum id (\<lambda>rs. foldl jadd (Fin 0) (map usdAmount rs))
      (tokenResults c raw timestamp verbose known lock retries)"
  unfolding computeTVL_def tokenResults_def bindE_def
  by (auto split: sum.splits prod.splits dest: usdTvl_valuation)

subsection \<open>The verbose flag\<close>

lemma foldl_perform_filter:
  "foldl perform objs fx = foldl perform objs (filter (\<lambda>x. \<not> isConsole x) fx)"
proof (induction fx arbitrary: objs)
  case Nil
  show ?case by simp
next
  case (Cons x fx)
  show ?case by (cases x) (simp_all add: Cons.IH)
qed

lemma chainToken_verbose:
  "snd (chainToken True address bal p ss ds a) = snd (chainToken False address bal p ss ds a)"
  by (simp add: chainToken_def Let_def split: sum.splits option.splits)

lemma tokenLookup_verbose:
  "snd (tokenLookup meta ps True address bal) = snd (tokenLookup meta ps False address bal)"
  by (simp add: tokenLookup_def chainToken_verbose split: sum.splits)

lemma snd_priceOrZero:
  "snd (priceOrZero verbose address x)
     = map_sum id
         (\<lambda>(symbol, amount, price).
            (symbol, amount, case price of None \<Rightarrow> Fin 0 | Some p \<Rightarrow> p))
         (snd x)"
  by (cases "(verbose, address, x)" rule: priceOrZero.cases) simp_all

lemma tryBody_verbose:
  "snd (tryBody meta ps True address bal) = snd (tryBody meta ps False address bal)"
  by (simp add: tryBody_def snd_priceOrZero tokenLookup_verbose)

lemma snd_callback:
  "snd (usdAmountsCallback meta ps verbose e)
     = (case snd (tryBody meta ps verbose (fst e) (snd e)) of
          Inr (symbol, amount, price) \<Rightarrow>
            \<lparr>usdAmount = jmul amount price, tokenSymbol = symbol\<rparr>
        | Inl err \<Rightarrow> \<lparr>usdAmount = Fin 0, tokenSymbol = ''ERROR '' @ fst e\<rparr>)"
  by (simp add: usdAmountsCallback_def split: prod.splits sum.splits)

lemma filter_map_Console: "filter (\<lambda>x. \<not> isConsole x) (map Console ls) = []"
  by (induction ls) simp_all

lemma balance_effects_callback:
  "filter (\<lambda>x. \<not> isConsole x) (fst (usdAmountsCallback meta ps verbose e))
     = (case snd (tryBody meta ps verbose (fst e) (snd e)) of
          Inr (symbol, amount, price) \<Rightarrow>
            [AddTokenBalance TokenBalances symbol amount,
             AddTokenBalance UsdTokenBalances symbol (jmul amount price)]
        | Inl err \<Rightarrow> [])"
  by (simp add: usdAmountsCallback_def filter_map_Console split: prod.splits sum.splits)

lemma balance_effects_all:
  "filter (\<lambda>x. \<not> isConsole x) (allEffects meta ps verbose sched entries)
     = concat (map (\<lambda>e. filter (\<lambda>x. \<not> isConsole x)
                          (fst (usdAmountsCallback meta ps verbose e)))
         (settleOrder sched entries))"
  by (simp add: allEffects_def filter_concat comp_def)

lemma fst_valuation:
  "fst (valuation c sched verbose meta ps entries)
     = (let objs = foldl perform \<lparr>usdTokenBalances = [], tokenBalances = []\<rparr>
                     (filter (\<lambda>x. \<not> isConsole x)
                        (allEffects meta ps verbose sched entries))
        in \<lparr>usdTokenBalances = usdTokenBalances objs, tokenBalances = tokenBalances objs,
             usdTvl = foldl jadd (Fin 0)
                        (map usdAmount (usdAmounts meta ps verbose entries))\<rparr>)"
  by (simp add: valuation_def Let_def fst_foldl_reduceStep foldl_perform_filter[symmetric])

lemma fst_valuation_verbose:
  "fst (valuation c sched True meta ps entries) = fst (valuation c sched False meta ps entries)"
  by (simp add: fst_valuation balance_effects_all balance_effects_callback usdAmounts_def
        snd_callback tryBody_verbose)

lemma valuation_run:
  "(case valuation c sched verbose meta ps entries of
      (ret, lines) \<Rightarrow> (Inr \<lparr>result = ret, console = lines, requests = rq\<rparr> :: error + run))
   = Inr \<lparr>result = fst (valuation c sched verbose meta ps entries),
          console = snd (valuation c sched verbose meta ps entries), requests = rq\<rparr>"
  by (simp add: case_prod_beta)

text \<open>
  Claim C8. With the same collaborators and the same order of the runs, the function
  called with \<open>verbose = true\<close> and with \<open>verbose = false\<close> is rejected with the same
  error or returns the same object \<open>{usdTvl, usdTokenBalances, tokenBalances}\<close>: the
  flag reaches the console only.
\<close>

theorem C8_verbose_advisory:
  "map_sum id result (computeTVL c sched raw timestamp True known lock retries)
   = map_sum id result (computeTVL c sched raw timestamp False known lock retries)"
  unfolding computeTVL_def bindE_def
  by (simp add: valuation_run fst_valuation_verbose split: sum.splits prod.splits)

subsection \<open>Runs that throw\<close>

lemma concat_map_filter_nil:
  "(\<And>x. x \<in> set xs \<Longrightarrow> \<not> P x \<Longrightarrow> f x = []) \<Longrightarrow>
   concat (map f xs) = concat (map f (filter P xs))"
  by (induction xs) auto

lemma perform_errored_run:
  assumes "snd (tryBody meta ps verbose (fst t) (snd t)) = Inl e"
  shows "foldl perform objs (fst (usdAmountsCallback meta ps verbose t)) = objs"
proof -
  have "filter (\<lambda>x. \<not> isConsole x) (fst (usdAmountsCallback meta ps verbose t)) = []"
    using assms by (simp add: balance_effects_callback)
  then show ?thesis
    using foldl_perform_filter[of objs "fst (usdAmountsCallback meta ps verbose t)"] by simp
qed

lemma perform_without_errored:
  assumes "snd (tryBody meta ps verbose (fst t) (snd t)) = Inl e"
  shows "foldl perform objs (concat (map (\<lambda>x. fst (usdAmountsCallback meta ps verbose x)) order))
       = foldl perform objs
           (concat (map (\<lambda>x. fst (usdAmountsCallback meta ps verbose x))
              (filter (\<lambda>x. x \<noteq> t) order)))"
proof -
  let ?f = "\<lambda>x. filter (\<lambda>y. \<not> isConsole y) (fst (usdAmountsCallback meta ps verbose x))"
  have nil: "?f t = []"
    using assms by (simp add: balance_effects_callback)
  have "concat (map ?f order) = concat (map ?f (filter (\<lambda>x. x \<noteq> t) order))"
    by (rule concat_map_filter_nil) (use nil in auto)
  then have "filter (\<lambda>y. \<not> isConsole y)
               (concat (map (\<lambda>x. fst (usdAmountsCallback meta ps verbose x)) order))
           = filter (\<lambda>y. \<not> isConsole y)
               (concat (map (\<lambda>x. fst (usdAmountsCallback meta ps verbose x))
                  (filter (\<lambda>x. x \<noteq> t) order)))"
    by (simp add: filter_concat comp_def)
  then show ?thesis
    by (metis foldl_perform_filter)
qed

text \<open>
  Claim C2. When the body of the \<^verbatim>\<open>try\<close> throws for a token, the run returns exactly
  \<open>usdAmount = 0\<close> and the symbol \<open>ERROR\<close> followed by the key; its effects leave the
  two shared objects as they are, whatever they hold, so the objects at the end are
  those that the other runs alone produce; and its zero stands at the token's place
  in the array whose sum is \<open>usdTvl\<close>.
\<close>

theorem C2_errored_token:
  assumes "snd (tryBody meta ps verbose address bal) = Inl e"
  shows "snd (usdAmountsCallback meta ps verbose (address, bal))
           = \<lparr>usdAmount = Fin 0, tokenSymbol = ''ERROR '' @ address\<rparr>
       \<and> foldl perform objs (fst (usdAmountsCallback meta ps verbose (address, bal))) = objs
       \<and> foldl perform objs (allEffects meta ps verbose sched entries)
           = foldl perform objs
               (concat (map (\<lambda>x. fst (usdAmountsCallback meta ps verbose x))
                  (filter (\<lambda>x. x \<noteq> (address, bal)) (settleOrder sched entries))))
       \<and> usdTvl (fst (valuation c sched verbose meta ps (xs @ (address, bal) # ys)))
           = foldl jadd (Fin 0)
               (map usdAmount (usdAmounts meta ps verbose xs) @ Fin 0
                  # map usdAmount (usdAmounts meta ps verbose ys))"
proof -
  have t: "snd (tryBody meta ps verbose (fst (address, bal)) (snd (address, bal))) = Inl e"
    using assms by simp
  have r: "snd (usdAmountsCallback meta ps verbose (address, bal))
           = \<lparr>usdAmount = Fin 0, tokenSymbol = ''ERROR '' @ address\<rparr>"
    using assms by (simp add: snd_callback)
  have u: "usdAmounts meta ps verbose (xs @ (address, bal) # ys)
           = usdAmounts meta ps verbose xs
             @ \<lparr>usdAmount = Fin 0, tokenSymbol = ''ERROR '' @ address\<rparr>
             # usdAmounts meta ps verbose ys"
    by (simp add: usdAmounts_def r)
  show ?thesis
    using r perform_errored_run[OF t] perform_without_errored[OF t]
    by (simp add: allEffects_def fst_valuation Let_def u)
qed

subsection \<open>Missing decimals, missing prices, balances that are no numbers\<close>

lemma startsWith_0x_not_bsc: "startsWith a ''0x'' \<Longrightarrow> \<not> startsWith a ''bsc:''"
  by (cases a) (auto simp: startsWith_def)

lemma startsWith_bsc_not_0x: "startsWith a ''bsc:'' \<Longrightarrow> \<not> startsWith a ''0x''"
  using startsWith_0x_not_bsc by blast











lemma jdiv_NaN [simp]: "jdiv NaN x = NaN"
  by (cases x) simp_all

lemma jmul_NaN [simp]: "jmul NaN x = NaN"
  by (cases x) simp_all

lemma jadd_NaN [simp]: "jadd x NaN = NaN"
  by (cases x) simp_all





text \<open>
  Claim C7. A key with the prefix \<^verbatim>\<open>bsc:\<close> is classified under the secondary ledger by
  the key without the prefix, and its run looks the stripped address up in the
  secondary ledger's symbols, decimals and prices only: the run is the same whatever
  the primary ledger's results and the id prices are. A key with the prefix \<^verbatim>\<open>0x\<close> is
  classified under the primary ledger as it is, and its run depends on the primary
  ledger's results only.
\<close>

theorem C7_ledger_dispatch:
  "(startsWith k ''bsc:'' \<longrightarrow>
      classify k st = st\<lparr>bscAddresses := bscAddresses st @ [slice k 4]\<rparr>
      \<and> tokenLookup meta ps verbose k bal
          = chainToken verbose k bal (bscTokenPrices ps) (bscTokenSymbols meta)
              (bscTokenDecimals meta) (slice k 4)
      \<and> (bscTokenPrices ps' = bscTokenPrices ps \<and> bscTokenSymbols meta' = bscTokenSymbols meta
           \<and> bscTokenDecimals meta' = bscTokenDecimals meta \<longrightarrow>
          usdAmountsCallback meta' ps' verbose (k, bal)
            = usdAmountsCallback meta ps verbose (k, bal)))
   \<and> (startsWith k ''0x'' \<longrightarrow>
      classify k st = st\<lparr>ethereumAddresses := ethereumAddresses st @ [k]\<rparr>
      \<and> tokenLookup meta ps verbose k bal
          = chainToken verbose k bal (ethereumTokenPrices ps) (allTokenSymbols meta)
              (allTokenDecimals meta) k
      \<and> (ethereumTokenPrices ps' = ethereumTokenPrices ps
           \<and> allTokenSymbols meta' = allTokenSymbols meta
           \<and> allTokenDecimals meta' = allTokenDecimals meta \<longrightarrow>
          usdAmountsCallback meta' ps' verbose (k, bal)
            = usdAmountsCallback meta ps verbose (k, bal)))"
proof -
  have cb: "tokenLookup meta' ps' verbose k bal = tokenLookup meta ps verbose k bal \<Longrightarrow>
            usdAmountsCallback meta' ps' verbose (k, bal)
              = usdAmountsCallback meta ps verbose (k, bal)"
    unfolding usdAmountsCallback_def tryBody_def fst_conv snd_conv by simp
  have bsc: "startsWith k ''bsc:'' \<Longrightarrow>
        tokenLookup m q verbose k bal
          = chainToken verbose k bal (bscTokenPrices q) (bscTokenSymbols m)
              (bscTokenDecimals m) (slice k 4)" for m q
    by (simp add: tokenLookup_def eval_nat_numeral)
  have eth: "startsWith k ''0x'' \<Longrightarrow>
        tokenLookup m q verbose k bal
          = chainToken verbose k bal (ethereumTokenPrices q) (allTokenSymbols m)
              (allTokenDecimals m) k" for m q
    using startsWith_0x_not_bsc[of k] by (simp add: tokenLookup_def)
  show ?thesis
    using startsWith_bsc_not_0x[of k] cb bsc eth
    by (auto simp: classify_def eval_nat_numeral)
qed

subsection \<open>Normalization\<close>

lemma normalizedBalances_classify [simp]:
  "normalizedBalances (classify k st) = normalizedBalances st"
  by (simp add: classify_def)

lemma normalizedEntry_key:
  "normalizedEntry (k, v) = Inr (a, stored) \<Longrightarrow>
   a = (if k = zeroAddress then ''ethereum'' else k)"
  by (auto simp: normalizedEntry_def normalizeETH_def bindE_def split: if_splits sum.splits)

lemma normalizeStep_balances:
  "normalizeStep st e = Inr st' \<Longrightarrow>
   \<exists>a stored. normalizedEntry e = Inr (a, stored)
     \<and> normalizedBalances st' = setProperty a stored (normalizedBalances st)"
  by (auto simp: normalizeStep_def bindE_def split: sum.splits)

lemma normalizeLoop_append:
  "normalizeLoop st (xs @ ys)
     = (case normalizeLoop st xs of Inl e \<Rightarrow> Inl e | Inr st' \<Rightarrow> normalizeLoop st' ys)"
  by (induction xs arbitrary: st) (auto split: sum.splits)

lemma normalizeLoop_other_keys:
  "normalizeLoop st zs = Inr n \<Longrightarrow>
   \<forall>z \<in> set zs. fst z \<noteq> zeroAddress \<and> fst z \<noteq> ''ethereum'' \<Longrightarrow>
   map_of (normalizedBalances n) ''ethereum'' = map_of (normalizedBalances st) ''ethereum''"
proof (induction zs arbitrary: st)
  case Nil
  then show ?case by simp
next
  case (Cons z zs)
  from Cons.prems(1) obtain st' where
    s: "normalizeStep st z = Inr st'" and l: "normalizeLoop st' zs = Inr n"
    by (auto split: sum.splits)
  from normalizeStep_balances[OF s] obtain a stored where
    e: "normalizedEntry z = Inr (a, stored)"
    and b: "normalizedBalances st' = setProperty a stored (normalizedBalances st)"
    by blast
  have "a = fst z"
    using normalizedEntry_key[of "fst z" "snd z" a stored] e Cons.prems(2) by simp
  then have "a \<noteq> ''ethereum''"
    using Cons.prems(2) by simp
  then have "map_of (normalizedBalances st') ''ethereum''
             = map_of (normalizedBalances st) ''ethereum''"
    by (simp add: b map_of_setProperty)
  moreover have "map_of (normalizedBalances n) ''ethereum''
                 = map_of (normalizedBalances st') ''ethereum''"
    using Cons.IH[OF l] Cons.prems(2) by simp
  ultimately show ?case by simp
qed

lemma normalizeLoop_distinct:
  "normalizeLoop st es = Inr n \<Longrightarrow> distinct (map fst (normalizedBalances st)) \<Longrightarrow>
   distinct (map fst (normalizedBalances n))"
proof (induction es arbitrary: st)
  case Nil
  then show ?case by simp
next
  case (Cons e es)
  from Cons.prems(1) obtain st' where
    s: "normalizeStep st e = Inr st'" and l: "normalizeLoop st' es = Inr n"
    by (auto split: sum.splits)
  from normalizeStep_balances[OF s] Cons.prems(2)
  have "distinct (map fst (normalizedBalances st'))"
    by (auto simp: distinct_setProperty)
  then show ?case
    by (rule Cons.IH[OF l])
qed

lemma one_entry:
  "distinct (map fst al) \<Longrightarrow> map_of al k = Some v \<Longrightarrow>
   filter (\<lambda>e. fst e = k) al = [(k, v)]"
proof (induction al)
  case Nil
  then show ?case by simp
next
  case (Cons x al)
  show ?case
  proof (cases "fst x = k")
    case True
    have "fst x \<notin> set (map fst al)"
      using Cons.prems(1) by simp
    then have "\<forall>e \<in> set al. fst e \<noteq> k"
      using True by (metis image_eqI set_map)
    then have "filter (\<lambda>e. fst e = k) al = []"
      by (simp add: filter_empty_conv)
    then show ?thesis
      using True Cons.prems(2) by (cases x) simp
  next
    case False
    then show ?thesis
      using Cons by (cases x) auto
  qed
qed

lemma later_keys_fresh:
  assumes "distinct (map fst (xs @ (k1, v1) # ys @ (k2, v2) # zs))"
    and "a = k1 \<or> a = k2" and "z \<in> set zs"
  shows "fst z \<noteq> a"
proof -
  have "k1 \<notin> fst ` set zs" and "k2 \<notin> fst ` set zs"
    using assms(1) by auto
  moreover have "fst z \<in> fst ` set zs"
    using assms(3) by (rule imageI)
  ultimately show ?thesis
    using assms(2) by metis
qed

text \<open>
  Claim C9. When an object-shaped input holds the zero address and the key
  \<open>ethereum\<close>, in either order, and normalization returns, both entries are written
  under the key \<open>ethereum\<close>, and the normalized balances hold exactly one entry for
  that key: the one written for the later of the two.
\<close>

theorem C9_ethereum_overwrite:
  assumes loop: "normalizeLoop emptyNormalization (xs @ (k1, v1) # ys @ (k2, v2) # zs) = Inr n"
    and dist: "distinct (map fst (xs @ (k1, v1) # ys @ (k2, v2) # zs))"
    and keys: "{k1, k2} = {zeroAddress, ''ethereum''}"
  shows "\<exists>s1 s2. normalizedEntry (k1, v1) = Inr (''ethereum'', s1)
           \<and> normalizedEntry (k2, v2) = Inr (''ethereum'', s2)
           \<and> filter (\<lambda>e. fst e = ''ethereum'') (normalizedBalances n) = [(''ethereum'', s2)]"
proof -
  from loop obtain st1 st2 st3 st4 where
    l1: "normalizeLoop emptyNormalization xs = Inr st1"
    and e1: "normalizeStep st1 (k1, v1) = Inr st2"
    and l2: "normalizeLoop st2 ys = Inr st3"
    and e2: "normalizeStep st3 (k2, v2) = Inr st4"
    and l3: "normalizeLoop st4 zs = Inr n"
    by (auto simp: normalizeLoop_append split: sum.splits)
  from normalizeStep_balances[OF e1] obtain a1 s1 where
    n1: "normalizedEntry (k1, v1) = Inr (a1, s1)"
    by blast
  from normalizeStep_balances[OF e2] obtain a2 s2 where
    n2: "normalizedEntry (k2, v2) = Inr (a2, s2)"
    and b2: "normalizedBalances st4 = setProperty a2 s2 (normalizedBalances st3)"
    by blast
  have k: "k1 \<in> {zeroAddress, ''ethereum''}" "k2 \<in> {zeroAddress, ''ethereum''}"
    using keys by auto
  have a1: "a1 = ''ethereum''"
    using normalizedEntry_key[OF n1] k(1) by auto
  have a2: "a2 = ''ethereum''"
    using normalizedEntry_key[OF n2] k(2) by auto
  have kz: "zeroAddress = k1 \<or> zeroAddress = k2"
    using keys by (metis insertI1 insertE singletonD)
  have ke: "''ethereum'' = k1 \<or> ''ethereum'' = k2"
    using keys by (metis insertI1 insertI2 insertE singletonD)
  have z: "\<forall>z \<in> set zs. fst z \<noteq> zeroAddress \<and> fst z \<noteq> ''ethereum''"
    using later_keys_fresh[OF dist kz] later_keys_fresh[OF dist ke] by blast
  have m: "map_of (normalizedBalances n) ''ethereum'' = Some s2"
    using normalizeLoop_other_keys[OF l3 z] by (simp add: b2 a2 map_of_setProperty)
  have d: "distinct (map fst (normalizedBalances n))"
    using normalizeLoop_distinct[OF loop] by (simp add: emptyNormalization_def)
  show ?thesis
    using n1 n2 a1 a2 one_entry[OF d m] by simp
qed

subsection \<open>Evaluation of examples\<close>

lemma toDouble_wei: "toDouble 1000000000000000000 = Fin 1000000000000000000"
  using toDouble_exact[of "10 ^ 18" "5 ^ 18" 18] by simp


lemma StringToNumber_wei: "StringToNumber ''1000000000000000000'' = Fin 1000000000000000000"
  by (simp add: StringToNumber_def trim_def isWhiteSpace_def startsWith_def signedDecimal_def
        unsignedDecimal_def isDigit_def digitOf_def exponentPart_def digitsValue_def
        scale10_def toDouble_wei)

lemma binaryExponent_unique:
  assumes "2 powi e \<le> x" and "x < 2 powi (e + 1)"
  shows "binaryExponent x = e"
proof -
  have "(0::real) < 2 powi e" by simp
  then have x0: "0 < x" using assms(1) by linarith
  have lo: "2 powi binaryExponent x \<le> x" and hi: "x < 2 powi (binaryExponent x + 1)"
    using binaryExponent_bounds[OF x0] by simp_all
  have "(2::real) powi binaryExponent x < 2 powi (e + 1)"
    using lo assms(2) by linarith
  then have "binaryExponent x < e + 1" by (rule powi2_less_imp)
  moreover have "(2::real) powi e < 2 powi (binaryExponent x + 1)"
    using hi assms(1) by linarith
  then have "e < binaryExponent x + 1" by (rule powi2_less_imp)
  ultimately show ?thesis by simp
qed

text \<open>An integer above \<open>2 ^ 53\<close> that is no double is rounded, here to the even neighbour.\<close>

lemma toDouble_rounds: "toDouble 9007199254740993 = Fin 9007199254740992"
proof -
  have e: "binaryExponent 9007199254740993 = 53"
    by (rule binaryExponent_unique) simp_all
  show ?thesis
    by (simp add: toDouble_def e roundHalfEven_def)
qed

lemma StringToNumber_rounds:
  "StringToNumber ''9007199254740993'' = Fin 9007199254740992"
  by (simp add: StringToNumber_def trim_def isWhiteSpace_def startsWith_def signedDecimal_def
        unsignedDecimal_def isDigit_def digitOf_def exponentPart_def digitsValue_def
        scale10_def toDouble_rounds)

text \<open>A literal beyond the range of the doubles is an infinity.\<close>

lemma StringToNumber_1e400: "StringToNumber ''1e400'' = PosInf"
proof -
  have "toDouble (10 ^ 400) = PosInf"
    using toDouble_overflow[of "10 ^ 400"] by simp
  then show ?thesis
    by (simp add: StringToNumber_def trim_def isWhiteSpace_def startsWith_def signedDecimal_def
          unsignedDecimal_def isDigit_def digitOf_def exponentPart_def digitsValue_def
          scale10_def)
qed

text \<open>The no-break space is white space.\<close>

lemma StringToNumber_nbsp: "StringToNumber [CHR 0xA0, CHR ''5''] = Fin 5"
  by (simp add: StringToNumber_def trim_def isWhiteSpace_def startsWith_def signedDecimal_def
        unsignedDecimal_def isDigit_def digitOf_def exponentPart_def digitsValue_def
        scale10_def toDouble_numeral)



lemma StringToNumber_5000: "StringToNumber ''5000'' = Fin 5000"
  by (simp add: StringToNumber_def trim_def isWhiteSpace_def startsWith_def signedDecimal_def
        unsignedDecimal_def isDigit_def digitOf_def exponentPart_def digitsValue_def
        scale10_def toDouble_numeral toDouble_0 toDouble_1)

lemma StringToNumber_3: "StringToNumber ''3'' = Fin 3"
  by (simp add: StringToNumber_def trim_def isWhiteSpace_def startsWith_def signedDecimal_def
        unsignedDecimal_def isDigit_def digitOf_def exponentPart_def digitsValue_def
        scale10_def toDouble_numeral toDouble_0 toDouble_1)

lemma normalize_wei:
  "normalizeLoop emptyNormalization [(zeroAddress, JString ''1000000000000000000'')]
     = Inr \<lparr>normalizedBalances = [(''ethereum'', JNumber (Fin 1))], ethereumAddresses = [],
            bscAddresses = [], nonEthereumTokenIds = [''ethereum'']\<rparr>"
  by (simp add: normalizeStep_def normalizedEntry_def normalizeETH_def bindE_def classify_def
        startsWith_def emptyNormalization_def StringToNumber_wei scale10_def toDouble_wei
        toDouble_1 setProperty_def isArrayIndex_def isDigit_def digitOf_def)

subsection \<open>Empty buckets\<close>

lemma tokenMulticall_spec:
  "tokenMulticall (c\<lparr>multiCall := multiCallSpec ledger\<rparr>) addresses abi chain
     = (if addresses = [] then ([], Inr [])
        else ([(abi, addresses, chain)],
              case ledger abi addresses chain of
                Inl e \<Rightarrow> Inl e
              | Inr res \<Rightarrow> Inr (filter success res)))"
  by (simp add: tokenMulticall_def multiCallSpec_def split: sum.splits)

lemma metadataLookups_spec_requests:
  "fst (metadataLookups (c\<lparr>multiCall := multiCallSpec ledger\<rparr>) eth bsc)
     = (if eth = [] then []
        else [(''erc20:decimals'', eth, None), (''erc20:symbol'', eth, None)])
       @ (if bsc = [] then []
          else [(''erc20:decimals'', bsc, Some Bsc), (''erc20:symbol'', bsc, Some Bsc)])"
  by (simp add: metadataLookups_def tokenMulticall_spec)

lemma balancesOf_spec_requests:
  "balancesOf (c\<lparr>multiCall := multiCallSpec ledger\<rparr>) raw = Inr (sent, balances) \<Longrightarrow>
   list_all (\<lambda>rq. fst (snd rq) \<noteq> []) sent"
  by (cases raw)
     (auto simp: balancesOf_def multiCallSpec_def bindE_def split: if_splits sum.splits)

text \<open>
  Claim C4. With the batch client of the spec, for which an empty batch is a no-op
  returning an empty result set, the metadata lookups send two requests (decimals,
  symbol) for each ledger whose bucket of addresses is not empty and none for a
  ledger whose bucket is empty; the results for an empty bucket are fulfilled and
  empty; and no request that a returning call of the function has sent has an empty
  list of targets. No batch call is made for the ids that are no ledger addresses.
\<close>

theorem C4_empty_bucket:
  "fst (metadataLookups (c\<lparr>multiCall := multiCallSpec ledger\<rparr>) eth bsc)
     = (if eth = [] then []
        else [(''erc20:decimals'', eth, None), (''erc20:symbol'', eth, None)])
       @ (if bsc = [] then []
          else [(''erc20:decimals'', bsc, Some Bsc), (''erc20:symbol'', bsc, Some Bsc)])
   \<and> (eth = [] \<longrightarrow>
        allTokenDecimals (snd (metadataLookups (c\<lparr>multiCall := multiCallSpec ledger\<rparr>) eth bsc))
          = Inr []
        \<and> allTokenSymbols (snd (metadataLookups (c\<lparr>multiCall := multiCallSpec ledger\<rparr>) eth bsc))
          = Inr [])
   \<and> (bsc = [] \<longrightarrow>
        bscTokenDecimals (snd (metadataLookups (c\<lparr>multiCall := multiCallSpec ledger\<rparr>) eth bsc))
          = Inr []
        \<and> bscTokenSymbols (snd (metadataLookups (c\<lparr>multiCall := multiCallSpec ledger\<rparr>) eth bsc))
          = Inr [])
   \<and> (computeTVL (c\<lparr>multiCall := multiCallSpec ledger\<rparr>) sched raw timestamp verbose known
         lock retries = Inr r \<longrightarrow>
        list_all (\<lambda>rq. fst (snd rq) \<noteq> []) (requests r))"
proof -
  let ?c = "c\<lparr>multiCall := multiCallSpec ledger\<rparr>"
  have m: "list_all (\<lambda>rq. fst (snd rq) \<noteq> []) (fst (metadataLookups ?c a b))" for a b
    by (simp add: metadataLookups_spec_requests)
  have m': "metadataLookups ?c a b = (sent, meta) \<Longrightarrow>
            list_all (\<lambda>rq. fst (snd rq) \<noteq> []) sent" for a b sent meta
    using m[of a b] by simp
  have r: "computeTVL ?c sched raw timestamp verbose known lock retries = Inr r \<Longrightarrow>
           list_all (\<lambda>rq. fst (snd rq) \<noteq> []) (requests r)"
    unfolding computeTVL_def bindE_def
    by (auto split: sum.splits prod.splits dest: m' balancesOf_spec_requests)
  show ?thesis
    using r by (simp add: metadataLookups_spec_requests)
       (simp add: metadataLookups_def tokenMulticall_spec)
qed

subsection \<open>The native asset\<close>

lemma settleOrder_ids:
  "\<not> (startsWith k ''0x'' \<or> startsWith k ''bsc:'') \<Longrightarrow> settleOrder sched [(k, v)] = [(k, v)]"
  by (simp add: settleOrder_def)

lemma valuation_ethereum:
  assumes "nonEthereumTokenPrices ps ''ethereum'' = Some (Fin 2000)"
  shows "fst (valuation c sched verbose meta ps [(''ethereum'', JNumber (Fin 1))])
       = \<lparr>usdTokenBalances = [(''ethereum'', NumberEntry (Fin 2000))],
          tokenBalances = [(''ethereum'', NumberEntry (Fin 1))], usdTvl = Fin 2000\<rparr>"
proof -
  have low: "toLowerCase ''ethereum'' = ''ethereum''"
    by (simp add: toLowerCase_def lowerChar_def)
  have ne: "\<not> (startsWith ''ethereum'' ''0x'' \<or> startsWith ''ethereum'' ''bsc:'')"
    by (simp add: startsWith_def)
  have t: "snd (tryBody meta ps verbose ''ethereum'' (JNumber (Fin 1)))
           = Inr (''ethereum'', Fin 1, Fin 2000)"
    using assms ne by (simp add: tryBody_def snd_priceOrZero tokenLookup_def low)
  show ?thesis
    using t
    by (simp add: fst_valuation balance_effects_all balance_effects_callback usdAmounts_def
          snd_callback settleOrder_ids[OF ne] addTokenBalance_def setProperty_def
          plusAmount_def objectPrototypeNames_def isArrayIndex_def isDigit_def digitOf_def
          toDouble_numeral toDouble_1)
qed

text \<open>
  Claim C3. For the object-shaped input whose only key is the zero address, with the
  value \<open>1000000000000000000\<close>, normalization writes the key \<open>ethereum\<close> with the
  number 1 and classifies it as an id, so that both buckets of ledger addresses are
  empty; and at the timestamp \<open>now\<close>, with a price client that answers the bucket of
  ids with the pre-seeded price 2000 of \<open>ethereum\<close> (and answers the two empty
  buckets), whatever the batch client does, the function returns \<open>usdTvl = 2000\<close>,
  \<open>tokenBalances = {ethereum: 1}\<close> and \<open>usdTokenBalances = {ethereum: 2000}\<close>.
\<close>

theorem C3_native_asset:
  assumes "known ''ethereum'' = Some (Fin 2000)"
    and "getTokenPrices c [''ethereum''] ''v3/simple/price?ids'' known lock retries None
           = Inr nonEth"
    and "nonEth ''ethereum'' = known ''ethereum''"
    and "getTokenPrices c []
           ''v3/simple/token_price/binance-smart-chain?contract_addresses''
           known lock retries (Some ''bsc:'') = Inr bsc"
    and "getTokenPrices c [] ''v3/simple/token_price/ethereum?contract_addresses''
           known lock retries None = Inr eth"
  shows "normalizeLoop emptyNormalization [(zeroAddress, JString ''1000000000000000000'')]
           = Inr \<lparr>normalizedBalances = [(''ethereum'', JNumber (Fin 1))],
                  ethereumAddresses = [], bscAddresses = [],
                  nonEthereumTokenIds = [''ethereum'']\<rparr>
       \<and> map_sum id result
           (computeTVL c sched
              (BalancesObject [(zeroAddress, JString ''1000000000000000000'')])
              Now verbose known lock retries)
           = Inr \<lparr>usdTokenBalances = [(''ethereum'', NumberEntry (Fin 2000))],
                  tokenBalances = [(''ethereum'', NumberEntry (Fin 1))], usdTvl = Fin 2000\<rparr>"
proof -
  let ?n = "\<lparr>normalizedBalances = [(''ethereum'', JNumber (Fin 1))],
                  ethereumAddresses = [], bscAddresses = [],
                  nonEthereumTokenIds = [''ethereum'']\<rparr>"
  have p: "tokenPrices c Now known lock retries ?n
           = Inr \<lparr>nonEthereumTokenPrices = nonEth, ethereumTokenPrices = eth,
                  bscTokenPrices = bsc\<rparr>"
    using assms(2,4,5) by (simp add: tokenPrices_def bindE_def)
  have v: "fst (valuation c sched verbose meta
                  \<lparr>nonEthereumTokenPrices = nonEth, ethereumTokenPrices = eth,
                   bscTokenPrices = bsc\<rparr> [(''ethereum'', JNumber (Fin 1))])
           = \<lparr>usdTokenBalances = [(''ethereum'', NumberEntry (Fin 2000))],
              tokenBalances = [(''ethereum'', NumberEntry (Fin 1))], usdTvl = Fin 2000\<rparr>" for meta
    by (rule valuation_ethereum) (simp add: assms(1,3))
  have r: "map_sum id result
           (computeTVL c sched
              (BalancesObject [(zeroAddress, JString ''1000000000000000000'')])
              Now verbose known lock retries)
           = Inr \<lparr>usdTokenBalances = [(''ethereum'', NumberEntry (Fin 2000))],
                  tokenBalances = [(''ethereum'', NumberEntry (Fin 1))], usdTvl = Fin 2000\<rparr>"
    using p
    by (simp add: computeTVL_def balancesOf_def bindE_def normalize_wei valuation_run v
          del: normalizeLoop.simps split: prod.splits)
  show ?thesis
    using r normalize_wei by simp
qed

subsection \<open>Examples\<close>

text \<open>A run for a key of the primary ledger whose symbol lookup was rejected.\<close>

theorem C2_errored_token_witness:
  "snd (tryBody
          \<lparr>allTokenDecimals = Inr [], allTokenSymbols = Inl (Rejected ''ledger''),
           bscTokenDecimals = Inr [], bscTokenSymbols = Inr []\<rparr>
          \<lparr>nonEthereumTokenPrices = map_of [], ethereumTokenPrices = map_of [],
           bscTokenPrices = map_of []\<rparr>
          False ''0xabc'' (JString ''1''))
     = Inl (Rejected ''ledger'')
   \<and> snd (usdAmountsCallback
          \<lparr>allTokenDecimals = Inr [], allTokenSymbols = Inl (Rejected ''ledger''),
           bscTokenDecimals = Inr [], bscTokenSymbols = Inr []\<rparr>
          \<lparr>nonEthereumTokenPrices = map_of [], ethereumTokenPrices = map_of [],
           bscTokenPrices = map_of []\<rparr>
          False (''0xabc'', JString ''1''))
     = \<lparr>usdAmount = Fin 0, tokenSymbol = ''ERROR 0xabc''\<rparr>
   \<and> foldl perform \<lparr>usdTokenBalances = [(''DAI'', NumberEntry (Fin 7))], tokenBalances = [(''DAI'', NumberEntry (Fin 7))]\<rparr>
        (fst (usdAmountsCallback
          \<lparr>allTokenDecimals = Inr [], allTokenSymbols = Inl (Rejected ''ledger''),
           bscTokenDecimals = Inr [], bscTokenSymbols = Inr []\<rparr>
          \<lparr>nonEthereumTokenPrices = map_of [], ethereumTokenPrices = map_of [],
           bscTokenPrices = map_of []\<rparr>
          False (''0xabc'', JString ''1'')))
     = \<lparr>usdTokenBalances = [(''DAI'', NumberEntry (Fin 7))], tokenBalances = [(''DAI'', NumberEntry (Fin 7))]\<rparr>"
proof -
  let ?meta = "\<lparr>allTokenDecimals = Inr [], allTokenSymbols = Inl (Rejected ''ledger''),
           bscTokenDecimals = Inr [], bscTokenSymbols = Inr []\<rparr>"
  let ?ps = "\<lparr>nonEthereumTokenPrices = map_of [], ethereumTokenPrices = map_of [],
           bscTokenPrices = map_of []\<rparr>"
  have h: "snd (tryBody ?meta ?ps False ''0xabc'' (JString ''1'')) = Inl (Rejected ''ledger'')"
    by (simp add: tryBody_def tokenLookup_def chainToken_def startsWith_def)
  show ?thesis
    using h C2_errored_token[OF h,
        where objs = "\<lparr>usdTokenBalances = [(''DAI'', NumberEntry (Fin 7))], tokenBalances = [(''DAI'', NumberEntry (Fin 7))]\<rparr>"
          and sched = "[]" and entries = "[]" and c = offlineCollaborators
          and xs = "[]" and ys = "[]"]
    by simp
qed



text \<open>The same address on both ledgers, with other symbols, decimals and prices.\<close>

theorem C7_ledger_dispatch_witness:
  "startsWith ''bsc:0xAbC'' ''bsc:''
   \<and> classify ''bsc:0xAbC'' emptyNormalization
       = emptyNormalization\<lparr>bscAddresses := [''0xAbC'']\<rparr>
   \<and> snd (usdAmountsCallback
          \<lparr>allTokenDecimals =
             Inr [\<lparr>input_target = ''0xAbC'', success = True, call_output = Some ''0''\<rparr>],
           allTokenSymbols =
             Inr [\<lparr>input_target = ''0xAbC'', success = True, call_output = Some ''WETH''\<rparr>],
           bscTokenDecimals =
             Inr [\<lparr>input_target = ''0xAbC'', success = True, call_output = Some ''3''\<rparr>],
           bscTokenSymbols =
             Inr [\<lparr>input_target = ''0xAbC'', success = True, call_output = Some ''CAKE''\<rparr>]\<rparr>
          \<lparr>nonEthereumTokenPrices = map_of [],
           ethereumTokenPrices = map_of [(''0xabc'', Fin 100)],
           bscTokenPrices = map_of [(''0xabc'', Fin 2)]\<rparr>
          False (''bsc:0xAbC'', JString ''5000''))
       = \<lparr>usdAmount = Fin 10, tokenSymbol = ''CAKE''\<rparr>
   \<and> startsWith ''0xAbC'' ''0x''
   \<and> classify ''0xAbC'' emptyNormalization
       = emptyNormalization\<lparr>ethereumAddresses := [''0xAbC'']\<rparr>
   \<and> snd (usdAmountsCallback
          \<lparr>allTokenDecimals =
             Inr [\<lparr>input_target = ''0xAbC'', success = True, call_output = Some ''0''\<rparr>],
           allTokenSymbols =
             Inr [\<lparr>input_target = ''0xAbC'', success = True, call_output = Some ''WETH''\<rparr>],
           bscTokenDecimals =
             Inr [\<lparr>input_target = ''0xAbC'', success = True, call_output = Some ''3''\<rparr>],
           bscTokenSymbols =
             Inr [\<lparr>input_target = ''0xAbC'', success = True, call_output = Some ''CAKE''\<rparr>]\<rparr>
          \<lparr>nonEthereumTokenPrices = map_of [],
           ethereumTokenPrices = map_of [(''0xabc'', Fin 100)],
           bscTokenPrices = map_of [(''0xabc'', Fin 2)]\<rparr>
          False (''0xAbC'', JString ''3''))
       = \<lparr>usdAmount = Fin 300, tokenSymbol = ''WETH''\<rparr>"
proof -
  let ?meta = "\<lparr>allTokenDecimals =
             Inr [\<lparr>input_target = ''0xAbC'', success = True, call_output = Some ''0''\<rparr>],
           allTokenSymbols =
             Inr [\<lparr>input_target = ''0xAbC'', success = True, call_output = Some ''WETH''\<rparr>],
           bscTokenDecimals =
             Inr [\<lparr>input_target = ''0xAbC'', success = True, call_output = Some ''3''\<rparr>],
           bscTokenSymbols =
             Inr [\<lparr>input_target = ''0xAbC'', success = True, call_output = Some ''CAKE''\<rparr>]\<rparr>"
  let ?ps = "\<lparr>nonEthereumTokenPrices = map_of [],
           ethereumTokenPrices = map_of [(''0xabc'', Fin 100)],
           bscTokenPrices = map_of [(''0xabc'', Fin 2)]\<rparr>"
  have b: "startsWith ''bsc:0xAbC'' ''bsc:''" and e: "startsWith ''0xAbC'' ''0x''"
    by (simp_all add: startsWith_def)
  have low: "toLowerCase ''0xAbC'' = ''0xabc''"
    by (simp add: toLowerCase_def lowerChar_def)
  have dec: "StringToNumber ''0'' = Fin 0"
    by (simp add: StringToNumber_def trim_def isWhiteSpace_def startsWith_def signedDecimal_def
        unsignedDecimal_def isDigit_def digitOf_def exponentPart_def digitsValue_def
        scale10_def toDouble_numeral toDouble_0 toDouble_1)
  have cb: "chainToken False ''bsc:0xAbC'' (JString ''5000'') (bscTokenPrices ?ps)
              (bscTokenSymbols ?meta) (bscTokenDecimals ?meta) (slice ''bsc:0xAbC'' 4)
            = ([], Inr (''CAKE'', Fin 5, Some (Fin 2)))"
    by (simp add: chainToken_def findOutput_def slice_def low StringToNumber_5000
          StringToNumber_3 scale10_def toDouble_numeral toDouble_1)
  have ce: "chainToken False ''0xAbC'' (JString ''3'') (ethereumTokenPrices ?ps)
              (allTokenSymbols ?meta) (allTokenDecimals ?meta) ''0xAbC''
            = ([], Inr (''WETH'', Fin 3, Some (Fin 100)))"
    by (simp add: chainToken_def findOutput_def low StringToNumber_3 dec scale10_def
          toDouble_numeral toDouble_1)
  have sl: "slice ''bsc:0xAbC'' 4 = ''0xAbC''"
    by (simp add: slice_def)
  from b cb C7_ledger_dispatch[where k = "''bsc:0xAbC''" and st = emptyNormalization
        and meta = ?meta and ps = ?ps and verbose = False and bal = "JString ''5000''"
        and meta' = ?meta and ps' = ?ps]
  have b1: "classify ''bsc:0xAbC'' emptyNormalization
            = emptyNormalization\<lparr>bscAddresses := [''0xAbC'']\<rparr>"
    and b2: "tokenLookup ?meta ?ps False ''bsc:0xAbC'' (JString ''5000'')
            = ([], Inr (''CAKE'', Fin 5, Some (Fin 2)))"
    by (simp_all add: sl emptyNormalization_def)
  from e ce C7_ledger_dispatch[where k = "''0xAbC''" and st = emptyNormalization
        and meta = ?meta and ps = ?ps and verbose = False and bal = "JString ''3''"
        and meta' = ?meta and ps' = ?ps]
  have e1: "classify ''0xAbC'' emptyNormalization
            = emptyNormalization\<lparr>ethereumAddresses := [''0xAbC'']\<rparr>"
    and e2: "tokenLookup ?meta ?ps False ''0xAbC'' (JString ''3'')
            = ([], Inr (''WETH'', Fin 3, Some (Fin 100)))"
    by (simp_all add: emptyNormalization_def)
  have b3: "snd (usdAmountsCallback ?meta ?ps False (''bsc:0xAbC'', JString ''5000''))
            = \<lparr>usdAmount = Fin 10, tokenSymbol = ''CAKE''\<rparr>"
    using b2 by (simp add: snd_callback tryBody_def toDouble_numeral)
  have e3: "snd (usdAmountsCallback ?meta ?ps False (''0xAbC'', JString ''3''))
            = \<lparr>usdAmount = Fin 300, tokenSymbol = ''WETH''\<rparr>"
    using e2 by (simp add: snd_callback tryBody_def toDouble_numeral)
  show ?thesis
    using b e b1 b3 e1 e3 by simp
qed

text \<open>The zero address first and the key \<open>ethereum\<close> second: the second balance is kept.\<close>

theorem C9_ethereum_overwrite_witness:
  "normalizeLoop emptyNormalization
     [(zeroAddress, JString ''1000000000000000000''), (''ethereum'', JString ''5'')]
     = Inr \<lparr>normalizedBalances = [(''ethereum'', JString ''5'')], ethereumAddresses = [],
            bscAddresses = [], nonEthereumTokenIds = [''ethereum'', ''ethereum'']\<rparr>
   \<and> normalizedEntry (zeroAddress, JString ''1000000000000000000'')
       = Inr (''ethereum'', JNumber (Fin 1))
   \<and> filter (\<lambda>e. fst e = ''ethereum'')
        (normalizedBalances
           \<lparr>normalizedBalances = [(''ethereum'', JString ''5'')], ethereumAddresses = [],
            bscAddresses = [], nonEthereumTokenIds = [''ethereum'', ''ethereum'']\<rparr>)
       = [(''ethereum'', JString ''5'')]"
proof -
  let ?n = "\<lparr>normalizedBalances = [(''ethereum'', JString ''5'')], ethereumAddresses = [],
            bscAddresses = [], nonEthereumTokenIds = [''ethereum'', ''ethereum'']\<rparr>"
  have e1: "normalizedEntry (zeroAddress, JString ''1000000000000000000'')
            = Inr (''ethereum'', JNumber (Fin 1))"
    by (simp add: normalizedEntry_def normalizeETH_def bindE_def StringToNumber_wei scale10_def
          toDouble_wei toDouble_1)
  have e2: "normalizedEntry (''ethereum'', JString ''5'') = Inr (''ethereum'', JString ''5'')"
    by (simp add: normalizedEntry_def normalizeETH_def bindE_def zeroAddress_def)
  have loop: "normalizeLoop emptyNormalization
       ([] @ (zeroAddress, JString ''1000000000000000000'') # [] @ (''ethereum'', JString ''5'') # [])
     = Inr ?n"
    by (simp add: normalizeStep_def e1 e2 bindE_def classify_def startsWith_def
          emptyNormalization_def setProperty_def isArrayIndex_def isDigit_def digitOf_def)
  have dist: "distinct (map fst
       ([] @ (zeroAddress, JString ''1000000000000000000'') # [] @ (''ethereum'', JString ''5'') # []))"
    by (simp add: zeroAddress_def)
  have keys: "{zeroAddress, ''ethereum''} = {zeroAddress, ''ethereum''}"
    by simp
  show ?thesis
    using loop e1 e2 C9_ethereum_overwrite[OF loop dist keys]
    by simp
qed



text \<open>The example of claim C3 with a price client that answers from the cache.\<close>

theorem C3_native_asset_witness:
  "map_sum id result
     (computeTVL offlineCollaborators []
        (BalancesObject [(zeroAddress, JString ''1000000000000000000'')])
        Now False (map_of [(''ethereum'', Fin 2000)]) () (Fin 3))
   = Inr \<lparr>usdTokenBalances = [(''ethereum'', NumberEntry (Fin 2000))],
          tokenBalances = [(''ethereum'', NumberEntry (Fin 1))], usdTvl = Fin 2000\<rparr>"
proof -
  let ?known = "map_of [(''ethereum'', Fin 2000)] :: TokenPrices"
  let ?nonEth = "\<lambda>k. if k \<in> set (map toLowerCase [''ethereum'']) then ?known k else None"
  let ?none = "\<lambda>k. if k \<in> set (map toLowerCase []) then ?known k else None"
  have low: "toLowerCase ''ethereum'' = ''ethereum''"
    by (simp add: toLowerCase_def lowerChar_def)
  have h1: "?known ''ethereum'' = Some (Fin 2000)"
    by simp
  have h2: "getTokenPrices offlineCollaborators [''ethereum''] ''v3/simple/price?ids''
              ?known () (Fin 3) None = Inr ?nonEth"
    by (simp add: offlineCollaborators_def getTokenPricesSpec_def low fun_eq_iff)
  have h3: "?nonEth ''ethereum'' = ?known ''ethereum''"
    by (simp add: low)
  have h4: "getTokenPrices offlineCollaborators []
              ''v3/simple/token_price/binance-smart-chain?contract_addresses''
              ?known () (Fin 3) (Some ''bsc:'') = Inr ?none"
    by (simp add: offlineCollaborators_def getTokenPricesSpec_def)
  have h5: "getTokenPrices offlineCollaborators []
              ''v3/simple/token_price/ethereum?contract_addresses''
              ?known () (Fin 3) None = Inr ?none"
    by (simp add: offlineCollaborators_def getTokenPricesSpec_def)
  show ?thesis
    using C3_native_asset[OF h1 h2 h3 h4 h5, where sched = "[]" and verbose = False]
    by simp
qed

text \<open>One empty and one non-empty bucket, and a call with no ledger address at all.\<close>

theorem C4_empty_bucket_witness:
  "fst (metadataLookups
          (offlineCollaborators\<lparr>multiCall := multiCallSpec (\<lambda>abi targets chain. Inr [])\<rparr>)
          [] [''0xabc''])
     = [(''erc20:decimals'', [''0xabc''], Some Bsc), (''erc20:symbol'', [''0xabc''], Some Bsc)]
   \<and> allTokenDecimals (snd (metadataLookups
          (offlineCollaborators\<lparr>multiCall := multiCallSpec (\<lambda>abi targets chain. Inr [])\<rparr>)
          [] [''0xabc''])) = Inr []
   \<and> allTokenSymbols (snd (metadataLookups
          (offlineCollaborators\<lparr>multiCall := multiCallSpec (\<lambda>abi targets chain. Inr [])\<rparr>)
          [] [''0xabc''])) = Inr []
   \<and> fst (metadataLookups
          (offlineCollaborators\<lparr>multiCall := multiCallSpec (\<lambda>abi targets chain. Inr [])\<rparr>)
          [''0xabc''] [])
     = [(''erc20:decimals'', [''0xabc''], None), (''erc20:symbol'', [''0xabc''], None)]
   \<and> bscTokenDecimals (snd (metadataLookups
          (offlineCollaborators\<lparr>multiCall := multiCallSpec (\<lambda>abi targets chain. Inr [])\<rparr>)
          [''0xabc''] [])) = Inr []
   \<and> bscTokenSymbols (snd (metadataLookups
          (offlineCollaborators\<lparr>multiCall := multiCallSpec (\<lambda>abi targets chain. Inr [])\<rparr>)
          [''0xabc''] [])) = Inr []
   \<and> computeTVL
          (offlineCollaborators\<lparr>multiCall := multiCallSpec (\<lambda>abi targets chain. Inr [])\<rparr>)
          [] (BalancesObject [(''dai'', JString ''1'')]) Now False (map_of [(''dai'', Fin 1)]) ()
          (Fin 3)
       = Inr \<lparr>result = \<lparr>usdTokenBalances = [(''dai'', NumberEntry (Fin 1))],
                        tokenBalances = [(''dai'', NumberEntry (Fin 1))], usdTvl = Fin 1\<rparr>,
              console = [], requests = []\<rparr>
   \<and> list_all (\<lambda>rq. fst (snd rq) \<noteq> [])
        (requests \<lparr>result = \<lparr>usdTokenBalances = [(''dai'', NumberEntry (Fin 1))],
                        tokenBalances = [(''dai'', NumberEntry (Fin 1))], usdTvl = Fin 1\<rparr>,
              console = [], requests = []\<rparr>)"
proof -
  let ?c = "offlineCollaborators\<lparr>multiCall := multiCallSpec (\<lambda>abi targets chain. Inr [])\<rparr>"
  let ?r = "\<lparr>result = \<lparr>usdTokenBalances = [(''dai'', NumberEntry (Fin 1))],
                        tokenBalances = [(''dai'', NumberEntry (Fin 1))], usdTvl = Fin 1\<rparr>,
              console = [], requests = []\<rparr>"
  have low: "toLowerCase ''dai'' = ''dai''"
    by (simp add: toLowerCase_def lowerChar_def)
  have one: "StringToNumber ''1'' = Fin 1"
    by (simp add: StringToNumber_def trim_def isWhiteSpace_def startsWith_def signedDecimal_def
        unsignedDecimal_def isDigit_def digitOf_def exponentPart_def digitsValue_def
        scale10_def toDouble_numeral toDouble_0 toDouble_1)
  have ne: "\<not> (startsWith ''dai'' ''0x'' \<or> startsWith ''dai'' ''bsc:'')"
    by (simp add: startsWith_def)
  have n: "normalizeLoop emptyNormalization [(''dai'', JString ''1'')]
           = Inr \<lparr>normalizedBalances = [(''dai'', JString ''1'')], ethereumAddresses = [],
                  bscAddresses = [], nonEthereumTokenIds = [''dai'']\<rparr>"
    by (simp add: normalizeStep_def normalizedEntry_def normalizeETH_def bindE_def classify_def
          startsWith_def emptyNormalization_def zeroAddress_def setProperty_def
          isArrayIndex_def isDigit_def digitOf_def)
  have p: "tokenPrices ?c Now (map_of [(''dai'', Fin 1)]) () (Fin 3)
             \<lparr>normalizedBalances = [(''dai'', JString ''1'')], ethereumAddresses = [],
              bscAddresses = [], nonEthereumTokenIds = [''dai'']\<rparr>
           = Inr \<lparr>nonEthereumTokenPrices = [''dai'' \<mapsto> Fin 1],
                  ethereumTokenPrices = Map.empty, bscTokenPrices = Map.empty\<rparr>"
    by (auto simp: tokenPrices_def bindE_def offlineCollaborators_def getTokenPricesSpec_def low)
  have t: "tryBody meta
             \<lparr>nonEthereumTokenPrices = [''dai'' \<mapsto> Fin 1],
              ethereumTokenPrices = Map.empty, bscTokenPrices = Map.empty\<rparr>
             False ''dai'' (JString ''1'')
           = ([], Inr (''dai'', Fin 1, Fin 1))" for meta
    using ne by (simp add: tryBody_def tokenLookup_def low one)
  have v: "valuation ?c [] False meta
             \<lparr>nonEthereumTokenPrices = [''dai'' \<mapsto> Fin 1],
              ethereumTokenPrices = Map.empty, bscTokenPrices = Map.empty\<rparr>
             [(''dai'', JString ''1'')]
           = (\<lparr>usdTokenBalances = [(''dai'', NumberEntry (Fin 1))],
               tokenBalances = [(''dai'', NumberEntry (Fin 1))], usdTvl = Fin 1\<rparr>, [])" for meta
    using t[of meta]
    by (simp add: valuation_def allEffects_def usdAmounts_def usdAmountsCallback_def
          settleOrder_ids[OF ne] addTokenBalance_def reduceStep_def Let_def setProperty_def
          plusAmount_def objectPrototypeNames_def isArrayIndex_def isDigit_def digitOf_def
          toDouble_1)
  have m: "fst (metadataLookups ?c [] []) = []"
    by (simp add: metadataLookups_spec_requests)
  have run: "computeTVL ?c [] (BalancesObject [(''dai'', JString ''1'')]) Now False
               (map_of [(''dai'', Fin 1)]) () (Fin 3) = Inr ?r"
    using p m
    by (simp add: computeTVL_def balancesOf_def bindE_def n v case_prod_beta
          del: normalizeLoop.simps)
  show ?thesis
    using run
      C4_empty_bucket[where c = offlineCollaborators
        and ledger = "\<lambda>abi targets chain. Inr []" and eth = "[]" and bsc = "[''0xabc'']"
        and sched = "[]" and raw = "BalancesObject [(''dai'', JString ''1'')]"
        and timestamp = Now and verbose = False and known = "map_of [(''dai'', Fin 1)]"
        and lock = "()" and retries = "Fin 3" and r = ?r]
      C4_empty_bucket[where c = offlineCollaborators
        and ledger = "\<lambda>abi targets chain. Inr []" and eth = "[''0xabc'']" and bsc = "[]"
        and sched = "[]" and raw = "BalancesObject [(''dai'', JString ''1'')]"
        and timestamp = Now and verbose = False and known = "map_of [(''dai'', Fin 1)]"
        and lock = "()" and retries = "Fin 3" and r = ?r]
    by simp
qed



end
